theory Spec2Isabelle
  imports Main
begin

section \<open>Python values\<close>

text \<open>
  Every value the program handles is decoded JSON: the request body, the replies of the
  embedding model, of the search cluster and of the text-generation model, and the dicts
  the program builds from them. A dict is an association list in insertion order, with
  distinct keys, looked up with \<open>map_of\<close>. A Python \<open>str\<close> is a \<open>string\<close>, one \<open>char\<close> for each code point.
  The program never computes with a float: \<open>'f\<close> is the carrier of floats, and the few
  things the interpreter does with one (truth value, formatting) are fields of the
  environment below.
\<close>

datatype 'f json =
    JNull
  | JBool bool
  | JInt int
  | JFloat 'f
  | JStr string
  | JList "'f json list"
  | JObj "(string \<times> 'f json) list"

text \<open>
  Exceptions. The first group is raised by the interpreter, \<open>Exception\<close> by a
  \<open>raise Exception(msg)\<close> of the program, the last two by the libraries that talk to the
  outside (boto3, requests, Flask, Jinja2, Zappa). All of them are subclasses of Python's
  \<open>Exception\<close>, so every \<open>except Exception\<close> of the program catches all of them.
\<close>

datatype exn =
    TypeError
  | AttributeError
  | KeyError
  | IndexError
  | ValueError
  | Exception string
  | GoneException
  | ServiceError string

text \<open>
  What \<open>print\<close> writes, one constructor for each print statement, with the values the
  statement interpolates.
\<close>

datatype 'f logline =
    EmbeddingError exn
  | SearchError exn
  | SemanticSearchError exn
  | Traceback exn
  | WsNotConfigured
  | WsSent "'f json"
  | WsGone "'f json"
  | WsError "'f json" exn
  | EmbeddingGenerated nat
  | NoEmbedding
  | BulkErrors nat
  | BulkOk nat
  | BulkFailed int string
  | BulkException exn

text \<open>The body of an outgoing HTTP request: one JSON document, or newline-delimited ones.\<close>

datatype 'f payload = JsonBody "'f json" | NdjsonBody "'f json list"

text \<open>
  What a run leaves behind, in order: the lines printed and the calls made to the outside.
\<close>

datatype 'f event =
    Print "'f logline"
  | InvokeModel string "'f json"
  | HttpPost string "'f payload"
  | PostToConnection "'f json" "'f json"
  | TaskSend "'f json" "'f json"

record 'f response =
  resp_ok :: bool
  resp_status_code :: int
  resp_text :: string
  resp_json :: "exn + 'f json"

text \<open>
  The environment of a run: the interpreter's treatment of floats (\<open>float_0_2\<close> is the
  float the literal \<open>0.2\<close> denotes) and \<open>repr\<close>, the module
  constants read from the process environment at import, and the outside world. Each
  outside service answers as a function of the call and of everything that happened
  before it, so a service may answer the same call differently at different times.
  \<open>invoke_model\<close> stands for building the client, \<open>invoke_model\<close> and
  \<open>json.loads(response.get('body').read())\<close>; \<open>http_post\<close> for signing the request and
  \<open>requests.post\<close>; \<open>render_template\<close> for loading and rendering
  \<open>llm_prompt_template.j2\<close>, a file the sources do not contain.
\<close>

record 'f env =
  float_truthy :: "'f \<Rightarrow> bool"
  float_0_2 :: "'f"
  format_3f :: "'f json \<Rightarrow> exn + string"
  repr :: "'f json \<Rightarrow> string"
  str_exn :: "exn \<Rightarrow> string"
  OPENSEARCH_ENDPOINT :: "string option"
  WEBSOCKET_API_ENDPOINT :: "string option"
  MODEL_ID :: string
  AWS_REGION :: string
  INDEX_NAME :: string
  LLM_MODEL_ID :: string
  AWS_LAMBDA_FUNCTION_NAME :: "string option"
  have_credentials :: bool
  invoke_model :: "'f event list \<Rightarrow> string \<Rightarrow> 'f json \<Rightarrow> exn + 'f json"
  http_post :: "'f event list \<Rightarrow> string \<Rightarrow> 'f payload \<Rightarrow> exn + 'f response"
  post_to_connection :: "'f event list \<Rightarrow> 'f json \<Rightarrow> 'f json \<Rightarrow> exn option"
  task_send :: "'f event list \<Rightarrow> 'f json \<Rightarrow> 'f json \<Rightarrow> exn option"
  render_template :: "string \<Rightarrow> exn + string"

subsection \<open>Built-in operations\<close>

text \<open>\<open>bool(v)\<close>, as \<open>if v\<close>, \<open>not v\<close>, \<open>and\<close> and \<open>or\<close> use it.\<close>

fun truthy :: "'f env \<Rightarrow> 'f json \<Rightarrow> bool" where
  "truthy env JNull = False"
| "truthy env (JBool b) = b"
| "truthy env (JInt n) = (n \<noteq> 0)"
| "truthy env (JFloat x) = float_truthy env x"
| "truthy env (JStr s) = (s \<noteq> [])"
| "truthy env (JList xs) = (xs \<noteq> [])"
| "truthy env (JObj kvs) = (kvs \<noteq> [])"

text \<open>\<open>d.get(k, default)\<close>: only a dict has the method.\<close>

fun py_get :: "'f json \<Rightarrow> string \<Rightarrow> 'f json \<Rightarrow> exn + 'f json" where
  "py_get (JObj kvs) k d = Inr (case map_of kvs k of None \<Rightarrow> d | Some v \<Rightarrow> v)"
| "py_get v k d = Inl AttributeError"

text \<open>\<open>v[k]\<close> for a string \<open>k\<close>.\<close>

fun py_getitem :: "'f json \<Rightarrow> string \<Rightarrow> exn + 'f json" where
  "py_getitem (JObj kvs) k = (case map_of kvs k of None \<Rightarrow> Inl KeyError | Some v \<Rightarrow> Inr v)"
| "py_getitem v k = Inl TypeError"

text \<open>\<open>s.startswith(p)\<close> and the substring test of \<open>p in s\<close> on strings.\<close>

fun startswith :: "string \<Rightarrow> string \<Rightarrow> bool" where
  "startswith s [] = True"
| "startswith [] (p # ps) = False"
| "startswith (c # cs) (p # ps) = (c = p \<and> startswith cs ps)"

fun substring_in :: "string \<Rightarrow> string \<Rightarrow> bool" where
  "substring_in p [] = (p = [])"
| "substring_in p (c # cs) = (startswith (c # cs) p \<or> substring_in p cs)"

text \<open>
  \<open>k in v\<close> for a string \<open>k\<close>: a key of a dict, an element of a list, a substring of a
  string; the other values are not iterable.
\<close>

fun py_in :: "string \<Rightarrow> 'f json \<Rightarrow> exn + bool" where
  "py_in k (JObj kvs) = Inr (map_of kvs k \<noteq> None)"
| "py_in k (JList xs) = Inr (JStr k \<in> set xs)"
| "py_in k (JStr s) = Inr (substring_in k s)"
| "py_in k v = Inl TypeError"

text \<open>\<open>len(v)\<close>.\<close>

fun py_len :: "'f json \<Rightarrow> exn + nat" where
  "py_len (JStr s) = Inr (length s)"
| "py_len (JList xs) = Inr (length xs)"
| "py_len (JObj kvs) = Inr (length kvs)"
| "py_len v = Inl TypeError"

text \<open>The values \<open>for x in v\<close> runs through.\<close>

fun py_iter :: "'f json \<Rightarrow> exn + 'f json list" where
  "py_iter (JList xs) = Inr xs"
| "py_iter (JStr s) = Inr (map (\<lambda>c. JStr [c]) s)"
| "py_iter (JObj kvs) = Inr (map (\<lambda>kv. JStr (fst kv)) kvs)"
| "py_iter v = Inl TypeError"

text \<open>
  \<open>v[:200] + '...'\<close>. A list can be sliced but not extended by a string; a dict cannot be
  sliced (\<open>TypeError\<close> up to Python 3.11, \<open>KeyError\<close> from 3.12 on, where a slice is
  hashable: the model takes the former).
\<close>

fun slice200_dots :: "'f json \<Rightarrow> exn + 'f json" where
  "slice200_dots (JStr s) = Inr (JStr (take 200 s @ ''...''))"
| "slice200_dots v = Inl TypeError"

text \<open>Decimal digits of a number, as \<open>str\<close> gives them.\<close>

definition digit_char :: "nat \<Rightarrow> char" where
  "digit_char d = ''0123456789'' ! d"

function str_nat :: "nat \<Rightarrow> string" where
  "str_nat n = (if n < 10 then [digit_char n] else str_nat (n div 10) @ [digit_char (n mod 10)])"
  by pat_completeness auto
termination
  by (relation "measure id") auto

declare str_nat.simps [simp del]

definition str_int :: "int \<Rightarrow> string" where
  "str_int i = (if i < 0 then CHR ''-'' # str_nat (nat (- i)) else str_nat (nat i))"

text \<open>
  \<open>str(v)\<close>, which is also what an f-string field \<open>{v}\<close> writes. For a float and for a
  list or dict it is \<open>repr\<close>, left to the environment.
\<close>

fun py_str :: "'f env \<Rightarrow> 'f json \<Rightarrow> string" where
  "py_str env (JStr s) = s"
| "py_str env JNull = ''None''"
| "py_str env (JBool b) = (if b then ''True'' else ''False'')"
| "py_str env (JInt n) = str_int n"
| "py_str env v = repr env v"

text \<open>
  \<open>str(e)\<close>: the message of an exception that carries one, else what the interpreter says.
\<close>

fun py_str_exn :: "'f env \<Rightarrow> exn \<Rightarrow> string" where
  "py_str_exn env (Exception m) = m"
| "py_str_exn env (ServiceError m) = m"
| "py_str_exn env e = str_exn env e"

text \<open>
  \<open>f"{v:.3f}"\<close>: a string has no such format code, \<open>None\<close>, a list and a dict no
  \<open>__format__\<close> that takes it; a number is formatted by the interpreter.
\<close>

fun py_format_3f :: "'f env \<Rightarrow> 'f json \<Rightarrow> exn + string" where
  "py_format_3f env (JStr s) = Inl ValueError"
| "py_format_3f env JNull = Inl TypeError"
| "py_format_3f env (JList xs) = Inl TypeError"
| "py_format_3f env (JObj kvs) = Inl TypeError"
| "py_format_3f env v = format_3f env v"

text \<open>\<open>sep.join(parts)\<close>.\<close>

fun join :: "string \<Rightarrow> string list \<Rightarrow> string" where
  "join sep [] = []"
| "join sep [p] = p"
| "join sep (p # q # ps) = p @ sep @ join sep (q # ps)"

section \<open>Programs\<close>

text \<open>
  A Python function is a program: run after the events so far, it returns a value or
  raises, and leaves the events extended.
\<close>

type_synonym ('f, 'a) prog = "'f event list \<Rightarrow> (exn + 'a) \<times> 'f event list"

definition ret :: "'a \<Rightarrow> ('f, 'a) prog" where
  "ret x tr = (Inr x, tr)"

definition raise :: "exn \<Rightarrow> ('f, 'a) prog" where
  "raise e tr = (Inl e, tr)"

definition lift :: "exn + 'a \<Rightarrow> ('f, 'a) prog" where
  "lift r tr = (r, tr)"

definition bnd :: "('f, 'a) prog \<Rightarrow> ('a \<Rightarrow> ('f, 'b) prog) \<Rightarrow> ('f, 'b) prog" where
  "bnd m f tr = (case m tr of (Inl e, tr') \<Rightarrow> (Inl e, tr') | (Inr x, tr') \<Rightarrow> f x tr')"

text \<open>\<open>try: m except Exception as e: h e\<close>.\<close>

definition try_except :: "('f, 'a) prog \<Rightarrow> (exn \<Rightarrow> ('f, 'a) prog) \<Rightarrow> ('f, 'a) prog" where
  "try_except m h tr = (case m tr of (Inl e, tr') \<Rightarrow> h e tr' | (Inr x, tr') \<Rightarrow> (Inr x, tr'))"

definition print :: "'f logline \<Rightarrow> ('f, unit) prog" where
  "print l tr = (Inr (), tr @ [Print l])"

text \<open>The calls to the outside: the call is recorded, the environment answers.\<close>

definition call_invoke_model :: "'f env \<Rightarrow> string \<Rightarrow> 'f json \<Rightarrow> ('f, 'f json) prog" where
  "call_invoke_model env model_id body tr =
     (invoke_model env tr model_id body, tr @ [InvokeModel model_id body])"

definition call_http_post :: "'f env \<Rightarrow> string \<Rightarrow> 'f payload \<Rightarrow> ('f, 'f response) prog" where
  "call_http_post env url body tr = (http_post env tr url body, tr @ [HttpPost url body])"

definition call_post_to_connection :: "'f env \<Rightarrow> 'f json \<Rightarrow> 'f json \<Rightarrow> ('f, unit) prog" where
  "call_post_to_connection env connection_id body tr =
     ((case post_to_connection env tr connection_id body of None \<Rightarrow> Inr () | Some e \<Rightarrow> Inl e),
      tr @ [PostToConnection connection_id body])"

definition call_task_send :: "'f env \<Rightarrow> 'f json \<Rightarrow> 'f json \<Rightarrow> ('f, unit) prog" where
  "call_task_send env query_text connection_id tr =
     ((case task_send env tr query_text connection_id of None \<Rightarrow> Inr () | Some e \<Rightarrow> Inl e),
      tr @ [TaskSend query_text connection_id])"

text \<open>\<open>if not endpoint\<close> on a value of \<open>os.environ.get\<close>: unset or empty.\<close>

fun configured :: "string option \<Rightarrow> bool" where
  "configured None = False"
| "configured (Some s) = (s \<noteq> [])"

section \<open>The embedding client\<close>

text \<open>\<open>get_bedrock_embedding\<close> of app.py.\<close>

definition get_bedrock_embedding :: "'f env \<Rightarrow> 'f json \<Rightarrow> ('f, 'f json) prog" where
  "get_bedrock_embedding env text_in =
     try_except
       (bnd (call_invoke_model env (MODEL_ID env) (JObj [(''inputText'', text_in)]))
          (\<lambda>response_body. lift (py_get response_body ''embedding'' JNull)))
       (\<lambda>e. bnd (print (EmbeddingError e)) (\<lambda>_. raise e))"

text \<open>\<open>get_bedrock_embedding\<close> of bedrock_embeddings.py, with the default model.\<close>

definition be_get_bedrock_embedding :: "'f env \<Rightarrow> 'f json \<Rightarrow> ('f, 'f json) prog" where
  "be_get_bedrock_embedding env text_in =
     try_except
       (bnd (call_invoke_model env (MODEL_ID env) (JObj [(''inputText'', text_in)]))
          (\<lambda>response_body. bnd (lift (py_get response_body ''embedding'' JNull))
             (\<lambda>embedding.
                if truthy env embedding
                then bnd (lift (py_len embedding))
                       (\<lambda>n. bnd (print (EmbeddingGenerated n)) (\<lambda>_. ret embedding))
                else bnd (print NoEmbedding) (\<lambda>_. ret JNull))))
       (\<lambda>e. bnd (print (EmbeddingError e))
          (\<lambda>_. bnd (print (Traceback e)) (\<lambda>_. raise e)))"

section \<open>The search flow of app.py\<close>

text \<open>Sequencing of computations that may raise but touch nothing outside.\<close>

definition sbnd :: "exn + 'a \<Rightarrow> ('a \<Rightarrow> exn + 'b) \<Rightarrow> exn + 'b" where
  "sbnd r f = (case r of Inl e \<Rightarrow> Inl e | Inr x \<Rightarrow> f x)"

definition nl :: string where
  "nl = [CHR 0x0A]"

definition dq :: string where
  "dq = [CHR 0x22]"

text \<open>The k-NN query, with the source fields the caller asks for.\<close>

definition knn_query :: "'f json \<Rightarrow> int \<Rightarrow> string list \<Rightarrow> 'f json" where
  "knn_query embedding k source_fields =
     JObj [(''size'', JInt k),
           (''query'', JObj [(''knn'', JObj [(''embedding'',
               JObj [(''vector'', embedding), (''k'', JInt k)])])]),
           (''_source'', JList (map JStr source_fields))]"

definition search_url :: "'f env \<Rightarrow> string" where
  "search_url env =
     ''https://'' @ the (OPENSEARCH_ENDPOINT env) @ ''/'' @ INDEX_NAME env @ ''/_search''"

definition query_failed :: "'f response \<Rightarrow> exn" where
  "query_failed response =
     Exception (''OpenSearch query failed: '' @ str_int (resp_status_code response)
                @ '' '' @ resp_text response)"

text \<open>\<open>search_opensearch_by_embedding\<close> of app.py.\<close>

definition search_opensearch_by_embedding ::
  "'f env \<Rightarrow> 'f json \<Rightarrow> int \<Rightarrow> ('f, 'f json) prog" where
  "search_opensearch_by_embedding env embedding k =
     try_except
       (if \<not> configured (OPENSEARCH_ENDPOINT env)
        then raise (Exception ''OpenSearch endpoint not configured'')
        else if \<not> have_credentials env
        then raise (Exception ''Unable to get AWS credentials'')
        else bnd (call_http_post env (search_url env)
                    (JsonBody (knn_query embedding k
                       [''title'', ''summary'', ''content'', ''sentiment_label'',
                        ''sentiment_score'', ''category''])))
               (\<lambda>response.
                  if \<not> resp_ok response then raise (query_failed response)
                  else lift (resp_json response)))
       (\<lambda>e. bnd (print (SearchError e)) (\<lambda>_. raise e))"

text \<open>
  The body of the formatting loop of \<open>perform_semantic_search\<close>. Python evaluates the
  default of \<open>source.get('summary', ...)\<close> before the lookup, so the content is sliced
  whether or not the hit has a summary.
\<close>

definition format_hit :: "'f json \<Rightarrow> exn + 'f json" where
  "format_hit hit =
     sbnd (py_get hit ''_source'' (JObj [])) (\<lambda>source.
     sbnd (py_get source ''title'' (JStr ''Untitled'')) (\<lambda>title.
     sbnd (py_get source ''content'' (JStr [])) (\<lambda>c.
     sbnd (slice200_dots c) (\<lambda>fallback.
     sbnd (py_get source ''summary'' fallback) (\<lambda>summary.
     sbnd (py_get source ''content'' (JStr [])) (\<lambda>content.
     sbnd (py_get hit ''_score'' (JInt 0)) (\<lambda>score.
     sbnd (py_get source ''sentiment_label'' (JStr ''Unknown'')) (\<lambda>label.
     sbnd (py_get source ''sentiment_score'' (JInt 0)) (\<lambda>sentiment_score.
     sbnd (py_get source ''category'' (JStr ''Unknown'')) (\<lambda>category.
       Inr (JObj [(''title'', title),
                  (''summary'', summary),
                  (''content'', content),
                  (''score'', score),
                  (''sentiment'', JObj [(''label'', label), (''score'', sentiment_score)]),
                  (''category'', category)])))))))))))"

fun format_results :: "'f json list \<Rightarrow> 'f json list \<Rightarrow> exn + 'f json list" where
  "format_results [] formatted_results = Inr formatted_results"
| "format_results (hit # hits) formatted_results =
     (case format_hit hit of
        Inl e \<Rightarrow> Inl e
      | Inr result \<Rightarrow> format_results hits (formatted_results @ [result]))"

text \<open>\<open>search_results.get('hits', {}).get('hits', [])\<close>.\<close>

definition hits_of :: "'f json \<Rightarrow> exn + 'f json" where
  "hits_of search_results =
     sbnd (py_get search_results ''hits'' (JObj [])) (\<lambda>h. py_get h ''hits'' (JList []))"

definition perform_semantic_search :: "'f env \<Rightarrow> 'f json \<Rightarrow> ('f, 'f json list) prog" where
  "perform_semantic_search env query_text =
     try_except
       (bnd (get_bedrock_embedding env query_text) (\<lambda>embedding.
          if \<not> truthy env embedding then ret []
          else bnd (search_opensearch_by_embedding env embedding 10) (\<lambda>search_results.
                 bnd (lift (hits_of search_results)) (\<lambda>hits.
                   if \<not> truthy env hits then ret []
                   else lift (sbnd (py_iter hits) (\<lambda>hs. format_results hs []))))))
       (\<lambda>e. bnd (print (SemanticSearchError e))
          (\<lambda>_. bnd (print (Traceback e)) (\<lambda>_. ret [])))"

section \<open>The notification sender\<close>

definition send_websocket_message :: "'f env \<Rightarrow> 'f json \<Rightarrow> 'f json \<Rightarrow> ('f, unit) prog" where
  "send_websocket_message env connection_id message_data =
     (if \<not> configured (WEBSOCKET_API_ENDPOINT env) then print WsNotConfigured
      else try_except
             (bnd (call_post_to_connection env connection_id message_data)
                (\<lambda>_. print (WsSent connection_id)))
             (\<lambda>e. if e = GoneException then print (WsGone connection_id)
                  else bnd (print (WsError connection_id e)) (\<lambda>_. print (Traceback e))))"

section \<open>The background search-and-notify flow\<close>

text \<open>
  \<open>[r for r in results if r['sentiment']['label'] == label]\<close>; \<open>label_of r\<close> is
  \<open>r['sentiment']['label']\<close>.
\<close>

definition label_of :: "'f json \<Rightarrow> exn + 'f json" where
  "label_of r = sbnd (py_getitem r ''sentiment'') (\<lambda>s. py_getitem s ''label'')"

fun with_sentiment :: "string \<Rightarrow> 'f json list \<Rightarrow> exn + 'f json list" where
  "with_sentiment label [] = Inr []"
| "with_sentiment label (r # rs) =
     (case label_of r of
        Inl e \<Rightarrow> Inl e
      | Inr v \<Rightarrow>
          (case with_sentiment label rs of
             Inl e \<Rightarrow> Inl e
           | Inr xs \<Rightarrow> Inr (if v = JStr label then r # xs else xs)))"

text \<open>The three lines one result adds to a sentiment section, and to the flat listing.\<close>

definition sentiment_item :: "'f env \<Rightarrow> nat \<Rightarrow> 'f json \<Rightarrow> exn + string list" where
  "sentiment_item env i result =
     sbnd (py_getitem result ''title'') (\<lambda>title.
     sbnd (py_getitem result ''summary'') (\<lambda>summary.
     sbnd (py_getitem result ''score'') (\<lambda>score.
     sbnd (py_format_3f env score) (\<lambda>score_text.
     sbnd (py_getitem result ''sentiment'') (\<lambda>sentiment.
     sbnd (py_getitem sentiment ''score'') (\<lambda>sentiment_score.
     sbnd (py_format_3f env sentiment_score) (\<lambda>sentiment_text.
       Inr [str_nat i @ ''. **'' @ py_str env title @ ''**'',
            ''   '' @ py_str env summary,
            ''   Score: '' @ score_text @ '' | Sentiment: '' @ sentiment_text @ nl])))))))"

definition top_item :: "'f env \<Rightarrow> nat \<Rightarrow> 'f json \<Rightarrow> exn + string list" where
  "top_item env i result =
     sbnd (py_getitem result ''title'') (\<lambda>title.
     sbnd (py_getitem result ''summary'') (\<lambda>summary.
     sbnd (py_getitem result ''score'') (\<lambda>score.
     sbnd (py_format_3f env score) (\<lambda>score_text.
       Inr [str_nat i @ ''. **'' @ py_str env title @ ''**'',
            ''   '' @ py_str env summary,
            ''   Score: '' @ score_text @ nl]))))"

text \<open>
  \<open>for i, result in enumerate(rs, i): response_parts.append(...)\<close>, for either kind of
  item.
\<close>

fun append_items ::
  "(nat \<Rightarrow> 'f json \<Rightarrow> exn + string list) \<Rightarrow> nat \<Rightarrow> 'f json list \<Rightarrow> string list
    \<Rightarrow> exn + string list" where
  "append_items item i [] response_parts = Inr response_parts"
| "append_items item i (result # rs) response_parts =
     (case item i result of
        Inl e \<Rightarrow> Inl e
      | Inr ls \<Rightarrow> append_items item (Suc i) rs (response_parts @ ls))"

definition found_line :: "'f env \<Rightarrow> 'f json list \<Rightarrow> 'f json \<Rightarrow> string" where
  "found_line env results query_text =
     ''Found '' @ str_nat (length results) @ '' results for '' @ dq @ py_str env query_text
       @ dq @ nl"

text \<open>Lines 227 to 253 of app.py: the list \<open>response_parts\<close> when the message is joined.\<close>

definition response_parts :: "'f env \<Rightarrow> 'f json list \<Rightarrow> 'f json \<Rightarrow> exn + string list" where
  "response_parts env results query_text =
     sbnd (with_sentiment ''POSITIVE'' results) (\<lambda>positive_results.
     sbnd (with_sentiment ''NEGATIVE'' results) (\<lambda>negative_results.
     sbnd (if positive_results \<noteq> []
           then append_items (sentiment_item env) 1 (take 3 positive_results)
                  ([found_line env results query_text] @ [''**Positive Sentiment Results:**''])
           else Inr [found_line env results query_text]) (\<lambda>parts1.
     sbnd (if negative_results \<noteq> []
           then append_items (sentiment_item env) 1 (take 3 negative_results)
                  (parts1 @ [''**Negative Sentiment Results:**''])
           else Inr parts1) (\<lambda>parts2.
     if positive_results = [] \<and> negative_results = []
     then append_items (top_item env) 1 (take 5 results) (parts2 @ [''**Top Results:**''])
     else Inr parts2))))"

definition processing_message :: "'f env \<Rightarrow> 'f json \<Rightarrow> 'f json" where
  "processing_message env query_text =
     JObj [(''status'', JStr ''processing''),
           (''message'', JStr (''Processing semantic search for: '' @ py_str env query_text))]"

definition no_results_message :: "'f env \<Rightarrow> 'f json \<Rightarrow> 'f json" where
  "no_results_message env query_text =
     JObj [(''status'', JStr ''no_results''),
           (''message'', JStr (''No results found for '' @ [CHR 0x27] @ py_str env query_text
              @ [CHR 0x27] @ ''. Try rephrasing your query.'')),
           (''results'', JList []),
           (''query'', query_text)]"

definition search_complete_message ::
  "string \<Rightarrow> 'f json list \<Rightarrow> 'f json \<Rightarrow> 'f json" where
  "search_complete_message response_message results query_text =
     JObj [(''status'', JStr ''search_complete''),
           (''message'', JStr response_message),
           (''results'', JList results),
           (''query'', query_text),
           (''total_results'', JInt (int (length results)))]"

definition search_error_message :: "'f env \<Rightarrow> exn \<Rightarrow> 'f json \<Rightarrow> 'f json" where
  "search_error_message env e query_text =
     JObj [(''status'', JStr ''search_error''),
           (''message'', JStr (''Sorry, I encountered an error while searching: ''
              @ py_str_exn env e)),
           (''results'', JList []),
           (''query'', query_text)]"

text \<open>The body of the task \<open>process_semantic_search\<close>.\<close>

definition process_semantic_search ::
  "'f env \<Rightarrow> 'f json \<Rightarrow> 'f json \<Rightarrow> ('f, 'f json) prog" where
  "process_semantic_search env query_text connection_id =
     try_except
       (bnd (send_websocket_message env connection_id (processing_message env query_text))
          (\<lambda>_. bnd (perform_semantic_search env query_text) (\<lambda>results.
             if results = []
             then bnd (send_websocket_message env connection_id
                         (no_results_message env query_text))
                    (\<lambda>_. ret (JObj [(''status'', JStr ''no_results''),
                                    (''message'', JStr ''No results found'')]))
             else bnd (lift (response_parts env results query_text)) (\<lambda>parts.
                    bnd (send_websocket_message env connection_id
                           (search_complete_message (join nl parts) results query_text))
                      (\<lambda>_. ret (JObj [(''status'', JStr ''success''),
                                      (''message'',
                                       JStr ''Search completed successfully'')]))))))
       (\<lambda>e. bnd (print (SemanticSearchError e))
          (\<lambda>_. bnd (print (Traceback e))
          (\<lambda>_. bnd (send_websocket_message env connection_id
                      (search_error_message env e query_text))
          (\<lambda>_. ret (JObj [(''status'', JStr ''error''),
                          (''message'',
                           JStr (''Error in semantic search: '' @ py_str_exn env e))])))))"

text \<open>
  The decorator \<open>@task\<close> of \<open>zappa.asynchronous\<close>, a library outside the sources: with a
  Lambda function name in the process environment a call of the task is serialised and
  sent to the platform, which runs the body later; without one the body runs in the
  caller.
\<close>

definition task_process_semantic_search ::
  "'f env \<Rightarrow> 'f json \<Rightarrow> 'f json \<Rightarrow> ('f, unit) prog" where
  "task_process_semantic_search env query_text connection_id =
     (if configured (AWS_LAMBDA_FUNCTION_NAME env)
      then call_task_send env query_text connection_id
      else bnd (process_semantic_search env query_text connection_id) (\<lambda>_. ret ()))"

section \<open>The request handlers\<close>

text \<open>
  A request: its method and what \<open>request.json\<close> gives, the decoded body or the exception
  Flask raises for a body that is not JSON. A view returns a body and a status.
\<close>

record 'f request =
  req_method :: string
  req_json :: "exn + 'f json"

definition search_endpoint :: "'f env \<Rightarrow> 'f request \<Rightarrow> ('f, 'f json \<times> nat) prog" where
  "search_endpoint env request =
     (if req_method request = ''OPTIONS'' then ret (JStr [], 204)
      else try_except
        (bnd (lift (req_json request)) (\<lambda>body.
         bnd (lift (if \<not> truthy env body then Inr True
                    else sbnd (py_in ''query'' body) (\<lambda>b. Inr (\<not> b)))) (\<lambda>missing.
           if missing
           then ret (JObj [(''error'', JStr ''Missing query in request body.'')], 400)
           else bnd (lift (py_getitem body ''query'')) (\<lambda>query_text.
                bnd (lift (py_get body ''connection_id'' JNull)) (\<lambda>connection_id.
                bnd (perform_semantic_search env query_text) (\<lambda>results.
                bnd (if truthy env connection_id \<and> configured (WEBSOCKET_API_ENDPOINT env)
                     then send_websocket_message env connection_id
                            (JObj [(''message'',
                                    JStr (''Search results for: '' @ py_str env query_text)),
                                   (''results'', JList results),
                                   (''query'', query_text)])
                     else ret ()) (\<lambda>_.
                ret (JObj [(''query'', query_text),
                           (''results'', JList results),
                           (''total_results'', JInt (int (length results)))], 200))))))))
        (\<lambda>e. ret (JObj [(''error'', JStr (''Search failed: '' @ py_str_exn env e))], 500)))"

definition process_search_endpoint ::
  "'f env \<Rightarrow> 'f request \<Rightarrow> ('f, 'f json \<times> nat) prog" where
  "process_search_endpoint env request =
     (if req_method request = ''OPTIONS'' then ret (JStr [], 204)
      else try_except
        (bnd (lift (req_json request)) (\<lambda>body.
         bnd (lift (if \<not> truthy env body then Inr True
                    else sbnd (py_in ''query'' body) (\<lambda>b.
                         if \<not> b then Inr True
                         else sbnd (py_in ''connection_id'' body) (\<lambda>c. Inr (\<not> c)))))
           (\<lambda>missing.
           if missing
           then ret (JObj [(''error'',
                            JStr ''Missing query or connection_id in request body.'')], 400)
           else bnd (lift (py_getitem body ''query'')) (\<lambda>query_text.
                bnd (lift (py_getitem body ''connection_id'')) (\<lambda>connection_id.
                bnd (task_process_semantic_search env query_text connection_id) (\<lambda>_.
                ret (JObj [(''message'', JStr (''Semantic search processing started. ''
                              @ ''Results will be sent via WebSocket.'')),
                           (''query'', query_text),
                           (''connection_id'', connection_id)], 202)))))))
        (\<lambda>e. ret (JObj [(''error'',
                         JStr (''Failed to start semantic search: '' @ py_str_exn env e))],
                  500)))"

section \<open>The search client of opensearch_client.py\<close>

text \<open>
  \<open>search_opensearch_by_embedding\<close> of opensearch_client.py: it asks for two more source
  fields and prints the traceback.
\<close>

definition oc_search_opensearch_by_embedding ::
  "'f env \<Rightarrow> 'f json \<Rightarrow> int \<Rightarrow> ('f, 'f json) prog" where
  "oc_search_opensearch_by_embedding env embedding k =
     try_except
       (if \<not> configured (OPENSEARCH_ENDPOINT env)
        then raise (Exception ''OpenSearch endpoint not configured'')
        else if \<not> have_credentials env
        then raise (Exception ''Unable to get AWS credentials'')
        else bnd (call_http_post env (search_url env)
                    (JsonBody (knn_query embedding k
                       [''title'', ''summary'', ''content'', ''sentiment_label'',
                        ''sentiment_score'', ''category'', ''url'', ''timestamp''])))
               (\<lambda>response.
                  if \<not> resp_ok response then raise (query_failed response)
                  else lift (resp_json response)))
       (\<lambda>e. bnd (print (SearchError e))
          (\<lambda>_. bnd (print (Traceback e)) (\<lambda>_. raise e)))"

text \<open>The lines of the bulk payload: an index operation, then the document.\<close>

fun bulk_data :: "string \<Rightarrow> nat \<Rightarrow> 'f json list \<Rightarrow> 'f json list" where
  "bulk_data index_name i [] = []"
| "bulk_data index_name i (doc # docs) =
     JObj [(''index'', JObj [(''_index'', JStr index_name), (''_id'', JStr (str_nat (i + 1)))])]
       # doc # bulk_data index_name (Suc i) docs"

text \<open>\<open>[item for item in items if 'error' in item.get('index', {})]\<close>.\<close>

fun error_items :: "'f json list \<Rightarrow> exn + 'f json list" where
  "error_items [] = Inr []"
| "error_items (item # items) =
     (case sbnd (py_get item ''index'' (JObj [])) (py_in ''error'') of
        Inl e \<Rightarrow> Inl e
      | Inr b \<Rightarrow>
          (case error_items items of
             Inl e \<Rightarrow> Inl e
           | Inr es \<Rightarrow> Inr (if b then item # es else es)))"

definition bulk_url :: "'f env \<Rightarrow> string" where
  "bulk_url env = ''https://'' @ the (OPENSEARCH_ENDPOINT env) @ ''/_bulk''"

definition bulk_add_documents :: "'f env \<Rightarrow> 'f json list \<Rightarrow> ('f, bool) prog" where
  "bulk_add_documents env documents =
     try_except
       (if \<not> configured (OPENSEARCH_ENDPOINT env)
        then raise (Exception ''OpenSearch endpoint not configured'')
        else if \<not> have_credentials env
        then raise (Exception ''Unable to get AWS credentials'')
        else bnd (call_http_post env (bulk_url env)
                    (NdjsonBody (bulk_data (INDEX_NAME env) 0 documents)))
               (\<lambda>response.
                  if resp_ok response
                  then bnd (lift (resp_json response)) (\<lambda>result.
                       bnd (lift (sbnd (py_get result ''items'' (JList []))
                                    (\<lambda>items. sbnd (py_iter items) error_items)))
                         (\<lambda>errors.
                            if errors \<noteq> []
                            then bnd (print (BulkErrors (length errors))) (\<lambda>_. ret False)
                            else bnd (print (BulkOk (length documents))) (\<lambda>_. ret True)))
                  else bnd (print (BulkFailed (resp_status_code response)
                                     (resp_text response)))
                         (\<lambda>_. ret False)))
       (\<lambda>e. bnd (print (BulkException e))
          (\<lambda>_. bnd (print (Traceback e)) (\<lambda>_. ret False)))"

section \<open>The summarization composer\<close>

text \<open>\<open>v[0]\<close>.\<close>

fun py_getitem0 :: "'f json \<Rightarrow> exn + 'f json" where
  "py_getitem0 (JList (x # xs)) = Inr x"
| "py_getitem0 (JList []) = Inl IndexError"
| "py_getitem0 (JStr (c # cs)) = Inr (JStr [c])"
| "py_getitem0 (JStr []) = Inl IndexError"
| "py_getitem0 (JObj kvs) = Inl KeyError"
| "py_getitem0 v = Inl TypeError"

definition llm_request_body :: "'f env \<Rightarrow> string \<Rightarrow> string \<Rightarrow> 'f json" where
  "llm_request_body env model_id prompt =
     (if startswith model_id ''amazon.titan-text''
      then JObj [(''inputText'', JStr prompt),
                 (''textGenerationConfig'',
                  JObj [(''maxTokenCount'', JInt 1024),
                        (''temperature'', JFloat (float_0_2 env))])]
      else JObj [(''prompt'', JStr prompt),
                 (''max_tokens_to_sample'', JInt 1024),
                 (''temperature'', JFloat (float_0_2 env))])"

text \<open>\<open>get_bedrock_llm_response(prompt)\<close>, as \<open>llm_summarize\<close> calls it.\<close>

definition get_bedrock_llm_response :: "'f env \<Rightarrow> string \<Rightarrow> ('f, 'f json) prog" where
  "get_bedrock_llm_response env prompt =
     bnd (call_invoke_model env (LLM_MODEL_ID env)
            (llm_request_body env (LLM_MODEL_ID env) prompt))
       (\<lambda>response_body.
          bnd (lift (sbnd (py_in ''results'' response_body) (\<lambda>has_results.
                       if has_results
                       then sbnd (py_getitem response_body ''results'')
                              (\<lambda>r. Inr (truthy env r))
                       else Inr False)))
            (\<lambda>use_results.
               if use_results
               then lift (sbnd (py_getitem response_body ''results'') (\<lambda>r.
                          sbnd (py_getitem0 r) (\<lambda>first.
                          py_get first ''outputText'' (JStr []))))
               else lift (sbnd (py_get response_body ''completion'' JNull) (\<lambda>completion.
                          if truthy env completion then Inr completion
                          else py_get response_body ''outputText'' JNull))))"

definition snippet :: "'f env \<Rightarrow> nat \<Rightarrow> 'f json \<Rightarrow> exn + string" where
  "snippet env i hit =
     sbnd (py_get hit ''_source'' (JObj [])) (\<lambda>src.
     sbnd (py_get src ''title'' (JStr [])) (\<lambda>title.
     sbnd (py_get src ''summary'' (JStr [])) (\<lambda>summary.
     sbnd (py_get src ''content'' (JStr [])) (\<lambda>content.
     sbnd (py_get src ''sentiment_label'' (JStr [])) (\<lambda>sentiment.
       Inr (''Snippet '' @ str_nat (i + 1) @ '' (Sentiment: '' @ py_str env sentiment @ ''):''
            @ nl @ ''Title: '' @ py_str env title
            @ nl @ ''Summary: '' @ py_str env summary
            @ nl @ ''Content: '' @ py_str env content @ nl))))))"

fun snippets_loop :: "'f env \<Rightarrow> nat \<Rightarrow> 'f json list \<Rightarrow> string list \<Rightarrow> exn + string list" where
  "snippets_loop env i [] formatted = Inr formatted"
| "snippets_loop env i (hit # hits) formatted =
     (case snippet env i hit of
        Inl e \<Rightarrow> Inl e
      | Inr s \<Rightarrow> snippets_loop env (Suc i) hits (formatted @ [s]))"

definition format_snippets_for_prompt :: "'f env \<Rightarrow> 'f json \<Rightarrow> exn + string" where
  "format_snippets_for_prompt env snippets =
     sbnd (py_iter snippets) (\<lambda>hs.
     sbnd (snippets_loop env 0 hs []) (\<lambda>formatted. Inr (join nl formatted)))"

text \<open>\<open>llm_summarize(query)\<close>, with the default \<open>k = 5\<close>.\<close>

definition llm_summarize :: "'f env \<Rightarrow> 'f json \<Rightarrow> ('f, string) prog" where
  "llm_summarize env query =
     bnd (be_get_bedrock_embedding env query) (\<lambda>embedding.
     bnd (oc_search_opensearch_by_embedding env embedding 5) (\<lambda>results.
     bnd (lift (hits_of results)) (\<lambda>hits.
       if \<not> truthy env hits then ret ''No relevant results found.''
       else bnd (lift (format_snippets_for_prompt env hits)) (\<lambda>snippets_text.
            bnd (lift (render_template env snippets_text)) (\<lambda>prompt.
            bnd (get_bedrock_llm_response env prompt) (\<lambda>llm_response.
            ret (py_str env llm_response)))))))"

section \<open>Properties of the data, and test doubles\<close>

text \<open>
  A search hit as the index gives it: an object whose \<open>_source\<close>, if it has one, is an object
  whose \<open>content\<close>, if it has one, is text.
\<close>

fun text_or_absent :: "'f json option \<Rightarrow> bool" where
  "text_or_absent None = True"
| "text_or_absent (Some (JStr s)) = True"
| "text_or_absent (Some v) = False"

fun source_of :: "'f json \<Rightarrow> (string \<times> 'f json) list option" where
  "source_of (JObj fs) =
     (case map_of fs ''_source'' of
        None \<Rightarrow> Some []
      | Some (JObj src) \<Rightarrow> Some src
      | Some v \<Rightarrow> None)"
| "source_of v = None"

definition search_hit :: "'f json \<Rightarrow> bool" where
  "search_hit hit =
     (case source_of hit of None \<Rightarrow> False | Some src \<Rightarrow> text_or_absent (map_of src ''content''))"

text \<open>The value of a field, or a default when the field is missing.\<close>

definition field_or :: "(string \<times> 'f json) list \<Rightarrow> string \<Rightarrow> 'f json \<Rightarrow> 'f json" where
  "field_or kvs k d = (case map_of kvs k of None \<Rightarrow> d | Some v \<Rightarrow> v)"

fun text_of :: "'f json \<Rightarrow> string" where
  "text_of (JStr s) = s"
| "text_of v = []"

text \<open>
  The fields of a formatted result, read from the record itself: a field of the result, and
  a field of its \<open>sentiment\<close>.
\<close>

fun obj_field :: "'f json \<Rightarrow> string \<Rightarrow> 'f json option" where
  "obj_field (JObj kvs) k = map_of kvs k"
| "obj_field v k = None"

definition sentiment_field :: "'f json \<Rightarrow> string \<Rightarrow> 'f json option" where
  "sentiment_field r k =
     (case obj_field r ''sentiment'' of None \<Rightarrow> None | Some s \<Rightarrow> obj_field s k)"

definition labelled_as :: "string \<Rightarrow> 'f json \<Rightarrow> bool" where
  "labelled_as label r = (sentiment_field r ''label'' = Some (JStr label))"

text \<open>
  A result that the flat listing can show has a title, a summary and a score that the
  interpreter formats; one that a sentiment group can show has, besides, a sentiment score
  that the interpreter formats.
\<close>

fun formats :: "'f env \<Rightarrow> 'f json option \<Rightarrow> bool" where
  "formats env None = False"
| "formats env (Some v) = (case py_format_3f env v of Inl e \<Rightarrow> False | Inr s \<Rightarrow> True)"

definition flat_listable :: "'f env \<Rightarrow> 'f json \<Rightarrow> bool" where
  "flat_listable env r =
     (obj_field r ''title'' \<noteq> None \<and> obj_field r ''summary'' \<noteq> None \<and>
      formats env (obj_field r ''score''))"

definition listable :: "'f env \<Rightarrow> 'f json \<Rightarrow> bool" where
  "listable env r = (flat_listable env r \<and> formats env (sentiment_field r ''score''))"

text \<open>
  The message as the specification words it, written from the fields of the results and
  not from the program: a first line with the number of results and the query; the
  results labelled POSITIVE, then those labelled NEGATIVE, each group under its heading,
  at most three to a group, numbered from 1; and, when neither group has a member, the
  first five results at most in one flat listing. An entry is three lines: the number and
  the title, the summary, and the scores to three decimals. The text of the message is
  its lines, separated by newlines.
\<close>

fun shown :: "'f env \<Rightarrow> 'f json option \<Rightarrow> string" where
  "shown env None = []"
| "shown env (Some v) = py_str env v"

fun shown_3f :: "'f env \<Rightarrow> 'f json option \<Rightarrow> string" where
  "shown_3f env None = []"
| "shown_3f env (Some v) = (case py_format_3f env v of Inl e \<Rightarrow> [] | Inr s \<Rightarrow> s)"

definition spec_sentiment_entry :: "'f env \<Rightarrow> nat \<times> 'f json \<Rightarrow> string list" where
  "spec_sentiment_entry env ir =
     [str_nat (fst ir) @ ''. **'' @ shown env (obj_field (snd ir) ''title'') @ ''**'',
      ''   '' @ shown env (obj_field (snd ir) ''summary''),
      ''   Score: '' @ shown_3f env (obj_field (snd ir) ''score'') @ '' | Sentiment: ''
        @ shown_3f env (sentiment_field (snd ir) ''score'') @ [CHR 0x0A]]"

definition spec_flat_entry :: "'f env \<Rightarrow> nat \<times> 'f json \<Rightarrow> string list" where
  "spec_flat_entry env ir =
     [str_nat (fst ir) @ ''. **'' @ shown env (obj_field (snd ir) ''title'') @ ''**'',
      ''   '' @ shown env (obj_field (snd ir) ''summary''),
      ''   Score: '' @ shown_3f env (obj_field (snd ir) ''score'') @ [CHR 0x0A]]"

definition spec_listing ::
  "string \<Rightarrow> (nat \<times> 'f json \<Rightarrow> string list) \<Rightarrow> 'f json list \<Rightarrow> string list" where
  "spec_listing header entry rs = header # concat (map entry (enumerate 1 rs))"

definition spec_message_lines :: "'f env \<Rightarrow> 'f json list \<Rightarrow> 'f json \<Rightarrow> string list" where
  "spec_message_lines env results query_text =
     [''Found '' @ str_nat (length results) @ '' results for '' @ [CHR 0x22]
        @ py_str env query_text @ [CHR 0x22, CHR 0x0A]]
     @ (if filter (labelled_as ''POSITIVE'') results = [] then []
        else spec_listing ''**Positive Sentiment Results:**'' (spec_sentiment_entry env)
               (take 3 (filter (labelled_as ''POSITIVE'') results)))
     @ (if filter (labelled_as ''NEGATIVE'') results = [] then []
        else spec_listing ''**Negative Sentiment Results:**'' (spec_sentiment_entry env)
               (take 3 (filter (labelled_as ''NEGATIVE'') results)))
     @ (if filter (labelled_as ''POSITIVE'') results = [] \<and>
           filter (labelled_as ''NEGATIVE'') results = []
        then spec_listing ''**Top Results:**'' (spec_flat_entry env) (take 5 results)
        else [])"

definition spec_message_text :: "string list \<Rightarrow> string" where
  "spec_message_text ls = tl (concat (map (\<lambda>l. CHR 0x0A # l) ls))"

text \<open>The notifications among some events that carry a given status.\<close>

fun notifies :: "string \<Rightarrow> 'f event \<Rightarrow> bool" where
  "notifies status (PostToConnection connection_id body) =
     (py_get body ''status'' JNull = Inr (JStr status))"
| "notifies status e = False"

text \<open>An item of a bulk response that carries an error.\<close>

fun carries_error :: "'f json \<Rightarrow> bool" where
  "carries_error (JObj kvs) =
     (case map_of kvs ''index'' of Some (JObj ix) \<Rightarrow> map_of ix ''error'' \<noteq> None | _ \<Rightarrow> False)"
| "carries_error v = False"

text \<open>
  A stub environment for running the program on concrete inputs: every service answers
  each call with a fixed reply, the notification channel is configured, and tasks run in
  the caller. It has no floats of its own; an integer score is written with three zeros.
\<close>

definition stub_env ::
  "(exn + unit json) \<Rightarrow> (exn + unit response) \<Rightarrow> exn option \<Rightarrow> (exn + unit json) \<Rightarrow> unit env" where
  "stub_env embed_reply search_reply notify_reply llm_reply =
     \<lparr> float_truthy = (\<lambda>x. True),
       float_0_2 = (),
       format_3f = (\<lambda>v. case v of JInt n \<Rightarrow> Inr (str_int n @ ''.000'') | _ \<Rightarrow> Inr ''0.500''),
       repr = (\<lambda>v. ''...''),
       str_exn = (\<lambda>e. ''error''),
       OPENSEARCH_ENDPOINT = Some ''search.example.com'',
       WEBSOCKET_API_ENDPOINT = Some ''https://ws.example.com'',
       MODEL_ID = ''amazon.titan-embed-text-v1'',
       AWS_REGION = ''us-east-1'',
       INDEX_NAME = ''semantic-search-index'',
       LLM_MODEL_ID = ''amazon.titan-text-lite-v1'',
       AWS_LAMBDA_FUNCTION_NAME = None,
       have_credentials = True,
       invoke_model = (\<lambda>tr model_id body.
          if model_id = ''amazon.titan-embed-text-v1'' then embed_reply else llm_reply),
       http_post = (\<lambda>tr url body. search_reply),
       post_to_connection = (\<lambda>tr connection_id body. notify_reply),
       task_send = (\<lambda>tr query_text connection_id. None),
       render_template = (\<lambda>snippets. Inr (''Summarize:'' @ nl @ snippets)) \<rparr>"

definition stub_vector :: "unit json" where
  "stub_vector = JObj [(''embedding'', JList [JFloat (), JFloat ()])]"

definition stub_response :: "unit json \<Rightarrow> unit response" where
  "stub_response body =
     \<lparr> resp_ok = True, resp_status_code = 200, resp_text = [], resp_json = Inr body \<rparr>"

definition stub_hits :: "unit json list \<Rightarrow> unit json" where
  "stub_hits hits = JObj [(''hits'', JObj [(''hits'', JList hits)])]"

definition stub_hit :: "string \<Rightarrow> string \<Rightarrow> string \<Rightarrow> unit json" where
  "stub_hit title content label =
     JObj [(''_score'', JInt 1),
           (''_source'', JObj [(''title'', JStr title), (''content'', JStr content),
                              (''sentiment_label'', JStr label),
                              (''sentiment_score'', JInt 1)])]"

text \<open>
  A hit with a score and a sentiment score of its own, what the formatter makes of it, and
  the stub environment whose search returns given hits.
\<close>

definition scored_hit :: "string \<Rightarrow> string \<Rightarrow> string \<Rightarrow> int \<Rightarrow> unit json \<Rightarrow> unit json" where
  "scored_hit title content label score sentiment_score =
     JObj [(''_score'', JInt score),
           (''_source'', JObj [(''title'', JStr title), (''content'', JStr content),
                              (''sentiment_label'', JStr label),
                              (''sentiment_score'', sentiment_score)])]"

definition scored_result ::
  "string \<Rightarrow> string \<Rightarrow> string \<Rightarrow> int \<Rightarrow> unit json \<Rightarrow> unit json" where
  "scored_result title content label score sentiment_score =
     JObj [(''title'', JStr title),
           (''summary'', JStr (take 200 content @ ''...'')),
           (''content'', JStr content),
           (''score'', JInt score),
           (''sentiment'', JObj [(''label'', JStr label), (''score'', sentiment_score)]),
           (''category'', JStr ''Unknown'')]"

definition search_env :: "unit json list \<Rightarrow> unit env" where
  "search_env hits =
     stub_env (Inr stub_vector) (Inr (stub_response (stub_hits hits))) None
       (Inl (ServiceError ''down''))"

definition post_request :: "unit json \<Rightarrow> unit request" where
  "post_request body = \<lparr> req_method = ''POST'', req_json = Inr body \<rparr>"

section \<open>Reasoning about programs\<close>

lemmas prog_defs = ret_def raise_def lift_def bnd_def try_except_def print_def sbnd_def
  call_invoke_model_def call_http_post_def call_post_to_connection_def call_task_send_def

lemmas stub_defs = stub_env_def stub_vector_def stub_response_def stub_hits_def stub_hit_def
  post_request_def

text \<open>A handler that always returns makes the whole \<open>try\<close> statement return.\<close>

lemma try_except_returns:
  assumes "\<And>e t. \<exists>x t'. h e t = (Inr x, t')"
  shows "\<exists>x tr'. try_except m h tr = (Inr x, tr')"
proof (cases "m tr")
  case (Pair r t)
  show ?thesis
  proof (cases r)
    case (Inl e)
    with Pair assms [of e t] show ?thesis by (auto simp: try_except_def)
  next
    case (Inr x)
    with Pair show ?thesis by (simp add: try_except_def)
  qed
qed

lemma send_websocket_message_returns:
  "\<exists>tr'. send_websocket_message env connection_id message_data tr = (Inr (), tr')"
  by (simp add: send_websocket_message_def prog_defs split: option.splits)

lemma perform_semantic_search_returns:
  "\<exists>xs tr'. perform_semantic_search env query_text tr = (Inr xs, tr')"
  unfolding perform_semantic_search_def
  by (rule try_except_returns) (simp add: prog_defs)

section \<open>The embedding client: what it returns and when it fails\<close>

text \<open>
  C3, as the code has it. When the model call fails, both embedding clients fail with the
  same error. When the call succeeds, neither fails for want of a vector: the client of
  app.py returns the reply's \<open>embedding\<close>, \<open>None\<close> when the reply has none, and the client of
  bedrock_embeddings.py returns a non-empty vector as it is and \<open>None\<close> when the reply has
  no vector or an empty one.
\<close>

theorem get_bedrock_embedding_outcomes:
  "(invoke_model env tr (MODEL_ID env) (JObj [(''inputText'', t)]) = Inl e \<longrightarrow>
      fst (get_bedrock_embedding env t tr) = Inl e \<and>
      fst (be_get_bedrock_embedding env t tr) = Inl e) \<and>
   (invoke_model env tr (MODEL_ID env) (JObj [(''inputText'', t)]) = Inr (JObj kvs) \<and>
    map_of kvs ''embedding'' = Some (JList (x # xs)) \<longrightarrow>
      fst (get_bedrock_embedding env t tr) = Inr (JList (x # xs)) \<and>
      fst (be_get_bedrock_embedding env t tr) = Inr (JList (x # xs))) \<and>
   (invoke_model env tr (MODEL_ID env) (JObj [(''inputText'', t)]) = Inr (JObj kvs) \<and>
    map_of kvs ''embedding'' = None \<longrightarrow>
      fst (get_bedrock_embedding env t tr) = Inr JNull \<and>
      fst (be_get_bedrock_embedding env t tr) = Inr JNull) \<and>
   (invoke_model env tr (MODEL_ID env) (JObj [(''inputText'', t)]) = Inr (JObj kvs) \<and>
    map_of kvs ''embedding'' = Some (JList []) \<longrightarrow>
      fst (get_bedrock_embedding env t tr) = Inr (JList []) \<and>
      fst (be_get_bedrock_embedding env t tr) = Inr JNull)"
  by (simp add: get_bedrock_embedding_def be_get_bedrock_embedding_def prog_defs)

theorem get_bedrock_embedding_outcomes_witness:
  "fst (get_bedrock_embedding (stub_env (Inl (ServiceError ''throttled'')) (Inl (ServiceError ''down'')) None (Inl (ServiceError ''down'')))
          (JStr ''hello'') []) = Inl (ServiceError ''throttled'') \<and>
   fst (be_get_bedrock_embedding (stub_env (Inl (ServiceError ''throttled'')) (Inl (ServiceError ''down'')) None (Inl (ServiceError ''down'')))
          (JStr ''hello'') []) = Inl (ServiceError ''throttled'') \<and>
   fst (be_get_bedrock_embedding (stub_env (Inr stub_vector) (Inl (ServiceError ''down'')) None (Inl (ServiceError ''down''))) (JStr ''hello'') [])
     = Inr (JList [JFloat (), JFloat ()]) \<and>
   fst (be_get_bedrock_embedding
          (stub_env (Inr (JObj [(''message'', JStr ''ok'')])) (Inl (ServiceError ''down'')) None (Inl (ServiceError ''down''))) (JStr ''hello'') [])
     = Inr JNull \<and>
   fst (be_get_bedrock_embedding
          (stub_env (Inr (JObj [(''embedding'', JList [])])) (Inl (ServiceError ''down'')) None (Inl (ServiceError ''down''))) (JStr ''hello'') [])
     = Inr JNull"
  using
    get_bedrock_embedding_outcomes
      [of "stub_env (Inl (ServiceError ''throttled'')) (Inl (ServiceError ''down'')) None (Inl (ServiceError ''down''))" "[]" "JStr ''hello''"
          "ServiceError ''throttled''"]
    get_bedrock_embedding_outcomes
      [of "stub_env (Inr stub_vector) (Inl (ServiceError ''down'')) None (Inl (ServiceError ''down''))" "[]" "JStr ''hello''" _
          "[(''embedding'', JList [JFloat (), JFloat ()])]" "JFloat ()" "[JFloat ()]"]
    get_bedrock_embedding_outcomes
      [of "stub_env (Inr (JObj [(''message'', JStr ''ok'')])) (Inl (ServiceError ''down'')) None (Inl (ServiceError ''down''))" "[]"
          "JStr ''hello''" _ "[(''message'', JStr ''ok'')]"]
    get_bedrock_embedding_outcomes
      [of "stub_env (Inr (JObj [(''embedding'', JList [])])) (Inl (ServiceError ''down'')) None (Inl (ServiceError ''down''))" "[]"
          "JStr ''hello''" _ "[(''embedding'', JList [])]"]
  by (simp add: stub_defs)

text \<open>
  C3, as the specification words it, fails: here the model call succeeds with a reply that
  has no vector, and both clients return \<open>None\<close> instead of failing.
\<close>

theorem get_bedrock_embedding_no_vector_counterexample:
  "invoke_model (stub_env (Inr (JObj [])) (Inl KeyError) None (Inl KeyError)) []
      (MODEL_ID (stub_env (Inr (JObj [])) (Inl KeyError) None (Inl KeyError)))
      (JObj [(''inputText'', JStr ''hello'')]) = Inr (JObj []) \<and>
   fst (get_bedrock_embedding (stub_env (Inr (JObj [])) (Inl KeyError) None (Inl KeyError))
          (JStr ''hello'') []) = Inr JNull \<and>
   fst (be_get_bedrock_embedding (stub_env (Inr (JObj [])) (Inl KeyError) None (Inl KeyError))
          (JStr ''hello'') []) = Inr JNull"
  by (simp add: get_bedrock_embedding_def be_get_bedrock_embedding_def prog_defs stub_defs)

section \<open>The notification sender swallows every delivery failure\<close>

text \<open>
  C5. \<open>send_websocket_message\<close> returns normally for every connection id and payload,
  whatever the channel answers. When the channel reports the destination gone, the sender
  prints that the connection is gone and returns; for any other delivery error it prints
  the error and the traceback and returns.
\<close>

theorem send_websocket_message_swallows:
  "(\<exists>tr'. send_websocket_message env connection_id message_data tr = (Inr (), tr')) \<and>
   (configured (WEBSOCKET_API_ENDPOINT env) \<and>
    post_to_connection env tr connection_id message_data = Some GoneException \<longrightarrow>
      send_websocket_message env connection_id message_data tr =
        (Inr (), tr @ [PostToConnection connection_id message_data,
                       Print (WsGone connection_id)])) \<and>
   (configured (WEBSOCKET_API_ENDPOINT env) \<and>
    post_to_connection env tr connection_id message_data = Some e \<and> e \<noteq> GoneException \<longrightarrow>
      send_websocket_message env connection_id message_data tr =
        (Inr (), tr @ [PostToConnection connection_id message_data,
                       Print (WsError connection_id e), Print (Traceback e)]))"
  by (simp add: send_websocket_message_def prog_defs split: option.splits)

theorem send_websocket_message_swallows_witness:
  "send_websocket_message (stub_env (Inl (ServiceError ''down'')) (Inl (ServiceError ''down''))
       (Some GoneException) (Inl (ServiceError ''down''))) (JStr ''c1'') JNull [] =
     (Inr (), [PostToConnection (JStr ''c1'') JNull, Print (WsGone (JStr ''c1''))]) \<and>
   send_websocket_message (stub_env (Inl (ServiceError ''down'')) (Inl (ServiceError ''down''))
       (Some (ServiceError ''limit'')) (Inl (ServiceError ''down'')))
       (JStr ''c1'') JNull [] =
     (Inr (), [PostToConnection (JStr ''c1'') JNull,
               Print (WsError (JStr ''c1'') (ServiceError ''limit'')),
               Print (Traceback (ServiceError ''limit''))])"
  using
    send_websocket_message_swallows
      [of "stub_env (Inl (ServiceError ''down'')) (Inl (ServiceError ''down''))
            (Some GoneException) (Inl (ServiceError ''down''))" "JStr ''c1''" JNull "[]"]
    send_websocket_message_swallows
      [of "stub_env (Inl (ServiceError ''down'')) (Inl (ServiceError ''down''))
            (Some (ServiceError ''limit'')) (Inl (ServiceError ''down''))" "JStr ''c1''" JNull "[]"
          "ServiceError ''limit''"]
  by (simp add: stub_defs)


section \<open>The synchronous search\<close>

lemma perform_semantic_search_upstream_failure:
  assumes "get_bedrock_embedding env q tr = (Inl e, tr1) \<or>
           (get_bedrock_embedding env q tr = (Inr emb, tr1) \<and> truthy env emb \<and>
            fst (search_opensearch_by_embedding env emb 10 tr1) = Inl e)"
  shows "\<exists>tr2. perform_semantic_search env q tr = (Inr [], tr2)"
  using assms
  by (cases "search_opensearch_by_embedding env emb 10 tr1")
     (auto simp: perform_semantic_search_def prog_defs)

lemma search_endpoint_with_query:
  assumes "req_method request \<noteq> ''OPTIONS''"
    and "req_json request = Inr (JObj kvs)"
    and "map_of kvs ''query'' = Some q"
    and "perform_semantic_search env q tr = (Inr xs, tr1)"
  shows "\<exists>tr2. search_endpoint env request tr =
           (Inr (JObj [(''query'', q), (''results'', JList xs),
                       (''total_results'', JInt (int (length xs)))], 200), tr2)"
proof -
  have ne: "kvs \<noteq> []" using assms(3) by auto
  obtain tr2 where "send_websocket_message env (field_or kvs ''connection_id'' JNull)
      (JObj [(''message'', JStr (''Search results for: '' @ py_str env q)),
             (''results'', JList xs), (''query'', q)]) tr1 = (Inr (), tr2)"
    using send_websocket_message_returns by blast
  with assms ne show ?thesis
    by (simp add: search_endpoint_def prog_defs field_or_def)
qed

text \<open>
  C1. Whatever the request, a response of \<open>search_endpoint\<close> with status 200 is an object
  whose \<open>results\<close> is a list and whose \<open>total_results\<close> is the length of that list; and a POST
  whose body is an object with a \<open>query\<close> field (empty or not) gets such a response.
\<close>

theorem search_endpoint_total_results:
  "(search_endpoint env request tr = (Inr (body, 200), tr') \<longrightarrow>
      (\<exists>q xs. body = JObj [(''query'', q), (''results'', JList xs),
                            (''total_results'', JInt (int (length xs)))])) \<and>
   (req_method request = ''POST'' \<and> req_json request = Inr (JObj kvs) \<and>
    map_of kvs ''query'' = Some q \<longrightarrow>
      (\<exists>xs tr2. search_endpoint env request tr =
          (Inr (JObj [(''query'', q), (''results'', JList xs),
                      (''total_results'', JInt (int (length xs)))], 200), tr2)))"
proof (intro conjI impI)
  assume "search_endpoint env request tr = (Inr (body, 200), tr')"
  then show "\<exists>q xs. body = JObj [(''query'', q), (''results'', JList xs),
                                  (''total_results'', JInt (int (length xs)))]"
    by (auto simp: search_endpoint_def prog_defs
             split: if_splits sum.splits prod.splits)
next
  assume h: "req_method request = ''POST'' \<and> req_json request = Inr (JObj kvs) \<and>
             map_of kvs ''query'' = Some q"
  obtain xs tr1 where "perform_semantic_search env q tr = (Inr xs, tr1)"
    using perform_semantic_search_returns by blast
  with h search_endpoint_with_query [of request kvs q env tr xs tr1]
  show "\<exists>xs tr2. search_endpoint env request tr =
          (Inr (JObj [(''query'', q), (''results'', JList xs),
                      (''total_results'', JInt (int (length xs)))], 200), tr2)"
    by auto
qed

theorem search_endpoint_total_results_witness:
  "fst (search_endpoint
          (stub_env (Inr stub_vector)
             (Inr (stub_response (stub_hits [stub_hit ''Doc'' ''Body'' ''POSITIVE''])))
             None (Inl (ServiceError ''down'')))
          (post_request (JObj [(''query'', JStr ''hello'')])) []) =
     Inr (JObj [(''query'', JStr ''hello''),
                (''results'',
                 JList [JObj [(''title'', JStr ''Doc''), (''summary'', JStr ''Body...''),
                              (''content'', JStr ''Body''), (''score'', JInt 1),
                              (''sentiment'',
                               JObj [(''label'', JStr ''POSITIVE''), (''score'', JInt 1)]),
                              (''category'', JStr ''Unknown'')]]),
                (''total_results'', JInt 1)], 200)"
  using search_endpoint_total_results
    [of "stub_env (Inr stub_vector)
           (Inr (stub_response (stub_hits [stub_hit ''Doc'' ''Body'' ''POSITIVE''])))
           None (Inl (ServiceError ''down''))"
        "post_request (JObj [(''query'', JStr ''hello'')])" "[]" _ _
        "[(''query'', JStr ''hello'')]" "JStr ''hello''"]
  by (simp add: search_endpoint_def perform_semantic_search_def get_bedrock_embedding_def
        search_opensearch_by_embedding_def send_websocket_message_def hits_of_def
        format_hit_def prog_defs stub_defs)

text \<open>
  C10. \<open>perform_semantic_search\<close> returns a list for every query and raises nothing. When
  the embedding call raises, or the embedding is there and the search call raises, the
  list is empty, and \<open>search_endpoint\<close> answers a POST with that query with status 200, an
  empty \<open>results\<close> and \<open>total_results\<close> 0.
\<close>

theorem perform_semantic_search_total:
  "(\<exists>xs tr'. perform_semantic_search env q tr = (Inr xs, tr')) \<and>
   (get_bedrock_embedding env q tr = (Inl e, tr1) \<or>
    (get_bedrock_embedding env q tr = (Inr emb, tr1) \<and> truthy env emb \<and>
     fst (search_opensearch_by_embedding env emb 10 tr1) = Inl e) \<longrightarrow>
      fst (perform_semantic_search env q tr) = Inr [] \<and>
      (req_method request = ''POST'' \<and> req_json request = Inr (JObj kvs) \<and>
       map_of kvs ''query'' = Some q \<longrightarrow>
         fst (search_endpoint env request tr) =
           Inr (JObj [(''query'', q), (''results'', JList []),
                      (''total_results'', JInt 0)], 200)))"
proof (intro conjI impI)
  show "\<exists>xs tr'. perform_semantic_search env q tr = (Inr xs, tr')"
    by (rule perform_semantic_search_returns)
next
  assume f: "get_bedrock_embedding env q tr = (Inl e, tr1) \<or>
    (get_bedrock_embedding env q tr = (Inr emb, tr1) \<and> truthy env emb \<and>
     fst (search_opensearch_by_embedding env emb 10 tr1) = Inl e)"
  then obtain tr2 where p: "perform_semantic_search env q tr = (Inr [], tr2)"
    using perform_semantic_search_upstream_failure by blast
  then show "fst (perform_semantic_search env q tr) = Inr []" by simp
  assume "req_method request = ''POST'' \<and> req_json request = Inr (JObj kvs) \<and>
          map_of kvs ''query'' = Some q"
  with p search_endpoint_with_query [of request kvs q env tr "[]" tr2]
  show "fst (search_endpoint env request tr) =
          Inr (JObj [(''query'', q), (''results'', JList []),
                     (''total_results'', JInt 0)], 200)"
    by auto
qed

theorem perform_semantic_search_total_witness:
  "fst (perform_semantic_search
          (stub_env (Inl (ServiceError ''throttled'')) (Inl (ServiceError ''down'')) None
             (Inl (ServiceError ''down'')))
          (JStr ''hello'') []) = Inr [] \<and>
   fst (search_endpoint
          (stub_env (Inl (ServiceError ''throttled'')) (Inl (ServiceError ''down'')) None
             (Inl (ServiceError ''down'')))
          (post_request (JObj [(''query'', JStr ''hello'')])) []) =
     Inr (JObj [(''query'', JStr ''hello''), (''results'', JList []),
                (''total_results'', JInt 0)], 200) \<and>
   fst (perform_semantic_search
          (stub_env (Inr stub_vector) (Inl (ServiceError ''timeout'')) None
             (Inl (ServiceError ''down'')))
          (JStr ''hello'') []) = Inr [] \<and>
   fst (search_endpoint
          (stub_env (Inr stub_vector) (Inl (ServiceError ''timeout'')) None
             (Inl (ServiceError ''down'')))
          (post_request (JObj [(''query'', JStr ''hello'')])) []) =
     Inr (JObj [(''query'', JStr ''hello''), (''results'', JList []),
                (''total_results'', JInt 0)], 200)"
proof -
  let ?down = "Inl (ServiceError ''down'')"
  let ?e1 = "stub_env (Inl (ServiceError ''throttled'')) ?down None ?down"
  let ?e2 = "stub_env (Inr stub_vector) (Inl (ServiceError ''timeout'')) None ?down"
  let ?call = "InvokeModel ''amazon.titan-embed-text-v1'' (JObj [(''inputText'', JStr ''hello'')])"
  have a: "get_bedrock_embedding ?e1 (JStr ''hello'') [] =
             (Inl (ServiceError ''throttled''),
              [?call, Print (EmbeddingError (ServiceError ''throttled''))])"
    by (simp add: get_bedrock_embedding_def prog_defs stub_defs)
  have b: "get_bedrock_embedding ?e2 (JStr ''hello'') [] =
             (Inr (JList [JFloat (), JFloat ()]), [?call])"
    by (simp add: get_bedrock_embedding_def prog_defs stub_defs)
  have c: "truthy ?e2 (JList [JFloat (), JFloat ()])" by simp
  have d: "fst (search_opensearch_by_embedding ?e2 (JList [JFloat (), JFloat ()]) 10 [?call])
             = Inl (ServiceError ''timeout'')"
    by (simp add: search_opensearch_by_embedding_def prog_defs stub_defs)
  have r: "req_method (post_request (JObj [(''query'', JStr ''hello'')])) = ''POST'' \<and>
           req_json (post_request (JObj [(''query'', JStr ''hello'')])) =
             Inr (JObj [(''query'', JStr ''hello'')]) \<and>
           map_of [(''query'', JStr ''hello'')] ''query'' = Some (JStr ''hello'')"
    by (simp add: post_request_def)
  show ?thesis
    using perform_semantic_search_total
            [of ?e1 "JStr ''hello''" "[]" "ServiceError ''throttled''"
                "[?call, Print (EmbeddingError (ServiceError ''throttled''))]" _
                "post_request (JObj [(''query'', JStr ''hello'')])"
                "[(''query'', JStr ''hello'')]"]
          perform_semantic_search_total
            [of ?e2 "JStr ''hello''" "[]" "ServiceError ''timeout''" "[?call]"
                "JList [JFloat (), JFloat ()]"
                "post_request (JObj [(''query'', JStr ''hello'')])"
                "[(''query'', JStr ''hello'')]"]
          a b c d r
    by simp
qed

section \<open>Requests that miss a required field\<close>

text \<open>
  C2. A POST whose body is \<open>null\<close>, or an object without \<open>query\<close>, gets status 400 from
  \<open>search_endpoint\<close>, and one whose body is \<open>null\<close>, or an object without \<open>query\<close> or without
  \<open>connection_id\<close>, gets status 400 from \<open>process_search_endpoint\<close>. In both cases the
  events after the handler are the events before it: nothing was called (no embedding,
  search, notification or text generation, and no task started) and nothing was printed.
\<close>

theorem missing_field_400_no_call:
  "(req_method request = ''POST'' \<and>
    (req_json request = Inr JNull \<or>
     (req_json request = Inr (JObj kvs) \<and> map_of kvs ''query'' = None)) \<longrightarrow>
      search_endpoint env request tr =
        (Inr (JObj [(''error'', JStr ''Missing query in request body.'')], 400), tr)) \<and>
   (req_method request = ''POST'' \<and>
    (req_json request = Inr JNull \<or>
     (req_json request = Inr (JObj kvs) \<and>
      (map_of kvs ''query'' = None \<or> map_of kvs ''connection_id'' = None))) \<longrightarrow>
      process_search_endpoint env request tr =
        (Inr (JObj [(''error'', JStr ''Missing query or connection_id in request body.'')],
              400), tr))"
  by (auto simp: search_endpoint_def process_search_endpoint_def prog_defs)

theorem missing_field_400_no_call_witness:
  "search_endpoint
     (stub_env (Inr stub_vector) (Inr (stub_response (stub_hits []))) None
        (Inl (ServiceError ''down'')))
     (post_request (JObj [(''connection_id'', JStr ''c1'')])) [] =
     (Inr (JObj [(''error'', JStr ''Missing query in request body.'')], 400), []) \<and>
   process_search_endpoint
     (stub_env (Inr stub_vector) (Inr (stub_response (stub_hits []))) None
        (Inl (ServiceError ''down'')))
     (post_request (JObj [(''query'', JStr ''hello'')])) [] =
     (Inr (JObj [(''error'', JStr ''Missing query or connection_id in request body.'')],
           400), []) \<and>
   process_search_endpoint
     (stub_env (Inr stub_vector) (Inr (stub_response (stub_hits []))) None
        (Inl (ServiceError ''down'')))
     (post_request (JObj [(''connection_id'', JStr ''c1'')])) [] =
     (Inr (JObj [(''error'', JStr ''Missing query or connection_id in request body.'')],
           400), [])"
  using
    missing_field_400_no_call
      [of "post_request (JObj [(''connection_id'', JStr ''c1'')])"
          "[(''connection_id'', JStr ''c1'')]"
          "stub_env (Inr stub_vector) (Inr (stub_response (stub_hits []))) None
             (Inl (ServiceError ''down''))" "[]"]
    missing_field_400_no_call
      [of "post_request (JObj [(''query'', JStr ''hello'')])"
          "[(''query'', JStr ''hello'')]"
          "stub_env (Inr stub_vector) (Inr (stub_response (stub_hits []))) None
             (Inl (ServiceError ''down''))" "[]"]
  by (simp add: post_request_def)


section \<open>The result formatter\<close>

lemma py_get_field_or: "py_get (JObj kvs) k d = Inr (field_or kvs k d)"
  by (simp add: field_or_def)

lemma source_of_get:
  "source_of (JObj fs) = Some src \<Longrightarrow> py_get (JObj fs) ''_source'' (JObj []) = Inr (JObj src)"
  by (cases "map_of fs ''_source''") (auto split: json.splits)

lemma slice200_dots_text:
  "text_or_absent (map_of src ''content'') \<Longrightarrow>
     slice200_dots (field_or src ''content'' (JStr [])) =
       Inr (JStr (take 200 (text_of (field_or src ''content'' (JStr []))) @ ''...''))"
  by (cases "map_of src ''content''"; cases "the (map_of src ''content'')")
     (auto simp: field_or_def)

text \<open>
  C4. \<open>format_hit\<close>, the body of the formatting loop, touches nothing outside and, for a
  hit whose content is text or missing, never fails. It copies \<open>title\<close>, \<open>summary\<close>,
  \<open>content\<close>, \<open>_score\<close>, \<open>sentiment_label\<close>, \<open>sentiment_score\<close> and \<open>category\<close> through; a
  missing title becomes \<open>Untitled\<close>, a missing summary the first 200 characters of the
  content followed by \<open>...\<close>, a missing sentiment label \<open>Unknown\<close>, a missing sentiment
  score or score 0, a missing content the empty string and a missing category \<open>Unknown\<close>.
\<close>

theorem format_hit_copies_or_defaults:
  assumes "search_hit (JObj fs)" and "source_of (JObj fs) = Some src"
  shows "format_hit (JObj fs) =
     Inr (JObj [(''title'', field_or src ''title'' (JStr ''Untitled'')),
                (''summary'', field_or src ''summary''
                   (JStr (take 200 (text_of (field_or src ''content'' (JStr []))) @ ''...''))),
                (''content'', field_or src ''content'' (JStr [])),
                (''score'', field_or fs ''_score'' (JInt 0)),
                (''sentiment'',
                 JObj [(''label'', field_or src ''sentiment_label'' (JStr ''Unknown'')),
                       (''score'', field_or src ''sentiment_score'' (JInt 0))]),
                (''category'', field_or src ''category'' (JStr ''Unknown''))])"
proof -
  have "py_get (JObj fs) ''_source'' (JObj []) = Inr (JObj src)"
    using assms(2) by (rule source_of_get)
  moreover have "slice200_dots (field_or src ''content'' (JStr [])) =
      Inr (JStr (take 200 (text_of (field_or src ''content'' (JStr []))) @ ''...''))"
    using assms by (simp add: search_hit_def slice200_dots_text)
  ultimately show ?thesis
    by (simp add: format_hit_def sbnd_def py_get_field_or del: py_get.simps)
qed

theorem format_hit_copies_or_defaults_witness:
  "format_hit (JObj [(''_score'', JInt 2),
                     (''_source'', JObj [(''content'', JStr ''Body''),
                                        (''category'', JStr ''news'')])]) =
     Inr (JObj [(''title'', JStr ''Untitled''),
                (''summary'', JStr ''Body...''),
                (''content'', JStr ''Body''),
                (''score'', JInt 2),
                (''sentiment'', JObj [(''label'', JStr ''Unknown''), (''score'', JInt 0)]),
                (''category'', JStr ''news'')])"
proof -
  let ?src = "[(''content'', JStr ''Body''), (''category'', JStr ''news'')]"
  let ?fs = "[(''_score'', JInt 2), (''_source'', JObj ?src)]"
  have a: "search_hit (JObj ?fs)" by (simp add: search_hit_def)
  have b: "source_of (JObj ?fs) = Some ?src" by simp
  show ?thesis
    using format_hit_copies_or_defaults [OF a b] by (simp add: field_or_def)
qed

section \<open>The background flow\<close>

text \<open>The search flow sends no notification.\<close>

lemma get_bedrock_embedding_events:
  "\<exists>evs. snd (get_bedrock_embedding env q tr) = tr @ evs \<and>
         (\<forall>e\<in>set evs. \<forall>s. \<not> notifies s e)"
  by (auto simp: get_bedrock_embedding_def prog_defs split: sum.splits)

lemma search_opensearch_by_embedding_events:
  "\<exists>evs. snd (search_opensearch_by_embedding env emb k tr) = tr @ evs \<and>
         (\<forall>e\<in>set evs. \<forall>s. \<not> notifies s e)"
  by (auto simp: search_opensearch_by_embedding_def prog_defs split: sum.splits)

lemma perform_semantic_search_events:
  "\<exists>evs. snd (perform_semantic_search env q tr) = tr @ evs \<and>
         (\<forall>e\<in>set evs. \<forall>s. \<not> notifies s e)"
proof -
  obtain r1 t1 where g: "get_bedrock_embedding env q tr = (r1, t1)" by force
  obtain ev1 where e1: "t1 = tr @ ev1" "\<forall>e\<in>set ev1. \<forall>s. \<not> notifies s e"
    using get_bedrock_embedding_events [of env q tr] g by auto
  show ?thesis
  proof (cases r1)
    case (Inl e)
    with g e1 show ?thesis
      by (auto simp: perform_semantic_search_def prog_defs)
  next
    case (Inr emb)
    obtain r2 t2 where s: "search_opensearch_by_embedding env emb 10 t1 = (r2, t2)" by force
    obtain ev2 where e2: "t2 = t1 @ ev2" "\<forall>e\<in>set ev2. \<forall>s. \<not> notifies s e"
      using search_opensearch_by_embedding_events [of env emb 10 t1] s by auto
    from Inr g s e1 e2 show ?thesis
      by (auto simp: perform_semantic_search_def prog_defs split: sum.splits)
  qed
qed

lemma send_websocket_message_configured:
  assumes "configured (WEBSOCKET_API_ENDPOINT env)"
  shows "\<exists>evs. send_websocket_message env c m tr = (Inr (), tr @ PostToConnection c m # evs) \<and>
           (\<forall>e\<in>set evs. \<forall>s. \<not> notifies s e)"
  using assms
  by (auto simp: send_websocket_message_def prog_defs split: option.splits)

text \<open>
  C7. With the notification channel configured, when the search flow started by the task
  comes back with no hits, the task posts exactly one notification whose status is
  \<open>no_results\<close>, the no-results message for the query, and returns that status.
\<close>

theorem no_results_one_notification:
  assumes "configured (WEBSOCKET_API_ENDPOINT env)"
    and "fst (perform_semantic_search env q
                (snd (send_websocket_message env c (processing_message env q) tr))) = Inr []"
  shows "\<exists>evs. process_semantic_search env q c tr =
                 (Inr (JObj [(''status'', JStr ''no_results''),
                             (''message'', JStr ''No results found'')]), tr @ evs) \<and>
               filter (notifies ''no_results'') evs =
                 [PostToConnection c (no_results_message env q)]"
proof -
  obtain ev1 where s1:
    "send_websocket_message env c (processing_message env q) tr =
       (Inr (), tr @ PostToConnection c (processing_message env q) # ev1)"
    "\<forall>e\<in>set ev1. \<forall>s. \<not> notifies s e"
    using send_websocket_message_configured [OF assms(1)] by blast
  let ?t1 = "tr @ PostToConnection c (processing_message env q) # ev1"
  obtain r2 t2 where p: "perform_semantic_search env q ?t1 = (r2, t2)" by force
  with assms(2) s1(1) have r2: "r2 = Inr []" by simp
  obtain ev2 where e2: "t2 = ?t1 @ ev2" "\<forall>e\<in>set ev2. \<forall>s. \<not> notifies s e"
    using perform_semantic_search_events [of env q ?t1] p by auto
  obtain ev3 where s3:
    "send_websocket_message env c (no_results_message env q) t2 =
       (Inr (), t2 @ PostToConnection c (no_results_message env q) # ev3)"
    "\<forall>e\<in>set ev3. \<forall>s. \<not> notifies s e"
    using send_websocket_message_configured [OF assms(1)] by blast
  have run: "process_semantic_search env q c tr =
      (Inr (JObj [(''status'', JStr ''no_results''), (''message'', JStr ''No results found'')]),
       tr @ (PostToConnection c (processing_message env q) # ev1 @ ev2
             @ PostToConnection c (no_results_message env q) # ev3))"
    using s1(1) p r2 e2(1) s3(1)
    by (simp add: process_semantic_search_def bnd_def try_except_def ret_def)
  have "filter (notifies ''no_results'')
          (PostToConnection c (processing_message env q) # ev1 @ ev2
             @ PostToConnection c (no_results_message env q) # ev3) =
        [PostToConnection c (no_results_message env q)]"
    using s1(2) e2(2) s3(2)
    by (simp add: processing_message_def no_results_message_def filter_empty_conv)
  with run show ?thesis by blast
qed

theorem no_results_one_notification_witness:
  "process_semantic_search
     (stub_env (Inr stub_vector) (Inr (stub_response (stub_hits []))) None
        (Inl (ServiceError ''down'')))
     (JStr ''hello'') (JStr ''c1'') [] =
     (Inr (JObj [(''status'', JStr ''no_results''), (''message'', JStr ''No results found'')]),
      [PostToConnection (JStr ''c1'')
         (JObj [(''status'', JStr ''processing''),
                (''message'', JStr ''Processing semantic search for: hello'')]),
       Print (WsSent (JStr ''c1'')),
       InvokeModel ''amazon.titan-embed-text-v1'' (JObj [(''inputText'', JStr ''hello'')]),
       HttpPost ''https://search.example.com/semantic-search-index/_search''
         (JsonBody (knn_query (JList [JFloat (), JFloat ()]) 10
            [''title'', ''summary'', ''content'', ''sentiment_label'', ''sentiment_score'',
             ''category''])),
       PostToConnection (JStr ''c1'')
         (no_results_message
            (stub_env (Inr stub_vector) (Inr (stub_response (stub_hits []))) None
               (Inl (ServiceError ''down'')))
            (JStr ''hello'')),
       Print (WsSent (JStr ''c1''))])"
proof -
  let ?env = "stub_env (Inr stub_vector) (Inr (stub_response (stub_hits []))) None
                (Inl (ServiceError ''down''))"
  have a: "configured (WEBSOCKET_API_ENDPOINT ?env)" by (simp add: stub_defs)
  have b: "fst (perform_semantic_search ?env (JStr ''hello'')
                  (snd (send_websocket_message ?env (JStr ''c1'')
                          (processing_message ?env (JStr ''hello'')) []))) = Inr []"
    by (simp add: perform_semantic_search_def get_bedrock_embedding_def
          search_opensearch_by_embedding_def send_websocket_message_def hits_of_def
          prog_defs stub_defs)
  show ?thesis
    using no_results_one_notification [OF a b]
    by (simp add: process_semantic_search_def perform_semantic_search_def
          get_bedrock_embedding_def search_opensearch_by_embedding_def
          send_websocket_message_def hits_of_def search_url_def processing_message_def
          prog_defs stub_defs)
qed


section \<open>The message of the background flow\<close>

lemma obj_field_getitem: "obj_field r k = Some v \<Longrightarrow> py_getitem r k = Inr v"
  by (cases r) auto

lemma sentiment_field_getitem:
  assumes "sentiment_field r k = Some v"
  shows "sbnd (py_getitem r ''sentiment'') (\<lambda>s. py_getitem s k) = Inr v"
proof -
  from assms obtain s where "obj_field r ''sentiment'' = Some s" and "obj_field s k = Some v"
    by (cases "obj_field r ''sentiment''") (auto simp: sentiment_field_def)
  then show ?thesis
    by (simp add: sbnd_def obj_field_getitem)
qed

lemma formats_Some:
  assumes "formats env opt"
  obtains v s where "opt = Some v" and "py_format_3f env v = Inr s"
  using assms by (cases opt) (auto split: sum.splits)

lemma with_sentiment_filter:
  "\<forall>r\<in>set rs. sentiment_field r ''label'' \<noteq> None \<Longrightarrow>
     with_sentiment label rs = Inr (filter (labelled_as label) rs)"
proof (induction rs)
  case Nil
  show ?case by simp
next
  case (Cons r rs)
  then obtain v where v: "sentiment_field r ''label'' = Some v" by auto
  then have "label_of r = Inr v"
    unfolding label_of_def by (rule sentiment_field_getitem)
  with Cons v show ?case by (simp add: labelled_as_def)
qed

lemma flat_listable_top_item:
  assumes "flat_listable env r"
  shows "top_item env i r = Inr (spec_flat_entry env (i, r))"
proof -
  from assms obtain title summary where t: "obj_field r ''title'' = Some title"
    and s: "obj_field r ''summary'' = Some summary"
    and f: "formats env (obj_field r ''score'')"
    by (auto simp: flat_listable_def)
  from f obtain score score_text where c: "obj_field r ''score'' = Some score"
    and ct: "py_format_3f env score = Inr score_text" by (rule formats_Some)
  from t s c ct show ?thesis
    by (simp add: top_item_def spec_flat_entry_def sbnd_def obj_field_getitem nl_def)
qed

lemma listable_sentiment_item:
  assumes "listable env r"
  shows "sentiment_item env i r = Inr (spec_sentiment_entry env (i, r))"
proof -
  from assms obtain title summary where t: "obj_field r ''title'' = Some title"
    and s: "obj_field r ''summary'' = Some summary"
    and f: "formats env (obj_field r ''score'')"
    and g: "formats env (sentiment_field r ''score'')"
    by (auto simp: listable_def flat_listable_def)
  from f obtain score score_text where c: "obj_field r ''score'' = Some score"
    and ct: "py_format_3f env score = Inr score_text" by (rule formats_Some)
  from g obtain ss ss_text where d: "sentiment_field r ''score'' = Some ss"
    and dt: "py_format_3f env ss = Inr ss_text" by (rule formats_Some)
  from d obtain sent where e: "obj_field r ''sentiment'' = Some sent"
    and e': "obj_field sent ''score'' = Some ss"
    by (cases "obj_field r ''sentiment''") (auto simp: sentiment_field_def)
  from t s c ct d dt e e' show ?thesis
    by (simp add: sentiment_item_def spec_sentiment_entry_def sbnd_def obj_field_getitem
          nl_def)
qed

lemma append_items_entries:
  "\<forall>r\<in>set rs. \<forall>i. item i r = Inr (entry (i, r)) \<Longrightarrow>
     append_items item i rs parts = Inr (parts @ concat (map entry (enumerate i rs)))"
proof (induction rs arbitrary: i parts)
  case Nil
  show ?case by simp
next
  case (Cons r rs)
  then show ?case by simp
qed

lemma response_parts_spec:
  assumes "\<forall>r\<in>set results. sentiment_field r ''label'' \<noteq> None"
    and "\<forall>r\<in>set (take 3 (filter (labelled_as ''POSITIVE'') results)). listable env r"
    and "\<forall>r\<in>set (take 3 (filter (labelled_as ''NEGATIVE'') results)). listable env r"
    and "filter (labelled_as ''POSITIVE'') results = [] \<and>
         filter (labelled_as ''NEGATIVE'') results = [] \<longrightarrow>
           (\<forall>r\<in>set (take 5 results). flat_listable env r)"
  shows "response_parts env results q = Inr (spec_message_lines env results q)"
proof -
  let ?pos = "filter (labelled_as ''POSITIVE'') results"
  let ?neg = "filter (labelled_as ''NEGATIVE'') results"
  have p: "append_items (sentiment_item env) (Suc 0) (take 3 ?pos) parts =
             Inr (parts @ concat (map (spec_sentiment_entry env) (enumerate (Suc 0) (take 3 ?pos))))"
    for parts
    using assms(2) by (intro append_items_entries) (simp add: listable_sentiment_item)
  have n: "append_items (sentiment_item env) (Suc 0) (take 3 ?neg) parts =
             Inr (parts @ concat (map (spec_sentiment_entry env) (enumerate (Suc 0) (take 3 ?neg))))"
    for parts
    using assms(3) by (intro append_items_entries) (simp add: listable_sentiment_item)
  have f: "append_items (top_item env) (Suc 0) (take 5 results) parts =
             Inr (parts @ concat (map (spec_flat_entry env) (enumerate (Suc 0) (take 5 results))))"
    if "?pos = []" and "?neg = []" for parts
    using assms(4) that by (intro append_items_entries) (simp add: flat_listable_top_item)
  show ?thesis
    unfolding response_parts_def spec_message_lines_def spec_listing_def
      with_sentiment_filter [OF assms(1)]
    by (simp add: sbnd_def p n f found_line_def dq_def nl_def)
qed

lemma join_newline:
  "ps \<noteq> [] \<Longrightarrow> concat (map (\<lambda>l. CHR 0x0A # l) ps) = CHR 0x0A # join nl ps"
  by (induction nl ps rule: join.induct) (simp_all add: nl_def)

lemma join_spec_message_text: "ps \<noteq> [] \<Longrightarrow> join nl ps = spec_message_text ps"
  by (simp add: spec_message_text_def join_newline)

lemma entries_length:
  "\<forall>ir. length (entry ir) = 3 \<Longrightarrow> length (concat (map entry (enumerate i rs))) = 3 * length rs"
  by (induction rs arbitrary: i) simp_all

lemma process_semantic_search_complete:
  assumes "configured (WEBSOCKET_API_ENDPOINT env)"
    and "fst (perform_semantic_search env q
                (snd (send_websocket_message env c (processing_message env q) tr))) =
         Inr results"
    and "results \<noteq> []"
    and "response_parts env results q = Inr parts"
  shows "\<exists>evs. process_semantic_search env q c tr =
                 (Inr (JObj [(''status'', JStr ''success''),
                             (''message'', JStr ''Search completed successfully'')]),
                  tr @ evs) \<and>
               filter (notifies ''search_complete'') evs =
                 [PostToConnection c
                    (JObj [(''status'', JStr ''search_complete''),
                           (''message'', JStr (join nl parts)),
                           (''results'', JList results),
                           (''query'', q),
                           (''total_results'', JInt (int (length results)))])]"
proof -
  let ?done = "JObj [(''status'', JStr ''search_complete''),
                     (''message'', JStr (join nl parts)),
                     (''results'', JList results),
                     (''query'', q),
                     (''total_results'', JInt (int (length results)))]"
  obtain ev1 where s1:
    "send_websocket_message env c (processing_message env q) tr =
       (Inr (), tr @ PostToConnection c (processing_message env q) # ev1)"
    "\<forall>e\<in>set ev1. \<forall>s. \<not> notifies s e"
    using send_websocket_message_configured [OF assms(1)] by blast
  let ?t1 = "tr @ PostToConnection c (processing_message env q) # ev1"
  obtain r2 t2 where p: "perform_semantic_search env q ?t1 = (r2, t2)" by force
  with assms(2) s1(1) have r2: "r2 = Inr results" by simp
  obtain ev2 where e2: "t2 = ?t1 @ ev2" "\<forall>e\<in>set ev2. \<forall>s. \<not> notifies s e"
    using perform_semantic_search_events [of env q ?t1] p by auto
  obtain ev3 where s3:
    "send_websocket_message env c ?done t2 = (Inr (), t2 @ PostToConnection c ?done # ev3)"
    "\<forall>e\<in>set ev3. \<forall>s. \<not> notifies s e"
    using send_websocket_message_configured [OF assms(1)] by blast
  have run: "process_semantic_search env q c tr =
      (Inr (JObj [(''status'', JStr ''success''),
                  (''message'', JStr ''Search completed successfully'')]),
       tr @ (PostToConnection c (processing_message env q) # ev1 @ ev2
             @ PostToConnection c ?done # ev3))"
    using s1(1) p r2 e2(1) s3(1) assms(3,4)
    by (simp add: process_semantic_search_def search_complete_message_def
          bnd_def try_except_def ret_def lift_def)
  have "filter (notifies ''search_complete'')
          (PostToConnection c (processing_message env q) # ev1 @ ev2
             @ PostToConnection c ?done # ev3) = [PostToConnection c ?done]"
    using s1(2) e2(2) s3(2)
    by (simp add: processing_message_def filter_empty_conv)
  with run show ?thesis by blast
qed

text \<open>
  C6. Take a non-empty list of formatted results in which every result has a sentiment
  label, the first three results labelled POSITIVE and the first three labelled NEGATIVE
  have a title, a summary and scores that can be formatted, and, when no result has either
  label, the first five results have a title, a summary and a score that can be formatted.
  Then the lines the task builds are exactly the lines of the message as the
  specification words it: the count and the query, the positive group and the negative
  group under their headings with at most three entries each, and the flat listing of at
  most five results when both groups are empty; every entry is three lines. With the
  channel configured, the task posts exactly one \<open>search_complete\<close> notification, whose
  message is these lines separated by newlines and which carries the results, the query
  and their number. For two results, the first labelled POSITIVE and the second NEGATIVE,
  the lines are the count, the positive heading, the entry of the first result numbered 1,
  the negative heading and the entry of the second result numbered 1.
\<close>

theorem search_complete_message_grouped:
  assumes "\<forall>r\<in>set results. sentiment_field r ''label'' \<noteq> None"
    and "\<forall>r\<in>set (take 3 (filter (labelled_as ''POSITIVE'') results)). listable env r"
    and "\<forall>r\<in>set (take 3 (filter (labelled_as ''NEGATIVE'') results)). listable env r"
    and "filter (labelled_as ''POSITIVE'') results = [] \<and>
         filter (labelled_as ''NEGATIVE'') results = [] \<longrightarrow>
           (\<forall>r\<in>set (take 5 results). flat_listable env r)"
    and "results \<noteq> []"
  shows "response_parts env results q = Inr (spec_message_lines env results q) \<and>
    (configured (WEBSOCKET_API_ENDPOINT env) \<and>
     fst (perform_semantic_search env q
            (snd (send_websocket_message env c (processing_message env q) tr))) =
       Inr results \<longrightarrow>
       (\<exists>evs. process_semantic_search env q c tr =
                 (Inr (JObj [(''status'', JStr ''success''),
                             (''message'', JStr ''Search completed successfully'')]),
                  tr @ evs) \<and>
               filter (notifies ''search_complete'') evs =
                 [PostToConnection c
                    (JObj [(''status'', JStr ''search_complete''),
                           (''message'',
                            JStr (spec_message_text (spec_message_lines env results q))),
                           (''results'', JList results),
                           (''query'', q),
                           (''total_results'', JInt (int (length results)))])])) \<and>
    length (spec_message_lines env results q) =
      1 + (if filter (labelled_as ''POSITIVE'') results = [] then 0
           else 1 + 3 * min 3 (length (filter (labelled_as ''POSITIVE'') results)))
        + (if filter (labelled_as ''NEGATIVE'') results = [] then 0
           else 1 + 3 * min 3 (length (filter (labelled_as ''NEGATIVE'') results)))
        + (if filter (labelled_as ''POSITIVE'') results = [] \<and>
              filter (labelled_as ''NEGATIVE'') results = []
           then 1 + 3 * min 5 (length results) else 0) \<and>
    (results = [r1, r2] \<and> labelled_as ''POSITIVE'' r1 \<and> labelled_as ''NEGATIVE'' r2 \<longrightarrow>
       response_parts env results q =
         Inr [''Found 2 results for '' @ [CHR 0x22] @ py_str env q @ [CHR 0x22, CHR 0x0A],
              ''**Positive Sentiment Results:**'',
              ''1. **'' @ shown env (obj_field r1 ''title'') @ ''**'',
              ''   '' @ shown env (obj_field r1 ''summary''),
              ''   Score: '' @ shown_3f env (obj_field r1 ''score'') @ '' | Sentiment: ''
                @ shown_3f env (sentiment_field r1 ''score'') @ [CHR 0x0A],
              ''**Negative Sentiment Results:**'',
              ''1. **'' @ shown env (obj_field r2 ''title'') @ ''**'',
              ''   '' @ shown env (obj_field r2 ''summary''),
              ''   Score: '' @ shown_3f env (obj_field r2 ''score'') @ '' | Sentiment: ''
                @ shown_3f env (sentiment_field r2 ''score'') @ [CHR 0x0A]])"
proof (intro conjI impI)
  show rp: "response_parts env results q = Inr (spec_message_lines env results q)"
    using assms(1-4) by (rule response_parts_spec)
  have ne: "spec_message_lines env results q \<noteq> []"
    by (simp add: spec_message_lines_def)
  {
    assume f: "configured (WEBSOCKET_API_ENDPOINT env) \<and>
       fst (perform_semantic_search env q
              (snd (send_websocket_message env c (processing_message env q) tr))) =
         Inr results"
    from process_semantic_search_complete [of env q c tr results, OF _ _ assms(5) rp] f
    show "\<exists>evs. process_semantic_search env q c tr =
                 (Inr (JObj [(''status'', JStr ''success''),
                             (''message'', JStr ''Search completed successfully'')]),
                  tr @ evs) \<and>
               filter (notifies ''search_complete'') evs =
                 [PostToConnection c
                    (JObj [(''status'', JStr ''search_complete''),
                           (''message'',
                            JStr (spec_message_text (spec_message_lines env results q))),
                           (''results'', JList results),
                           (''query'', q),
                           (''total_results'', JInt (int (length results)))])]"
      by (simp add: join_spec_message_text [OF ne])
  }
  have s: "length (concat (map (spec_sentiment_entry env) (enumerate i rs))) = 3 * length rs"
    for i rs
    by (rule entries_length) (simp add: spec_sentiment_entry_def)
  have t: "length (concat (map (spec_flat_entry env) (enumerate i rs))) = 3 * length rs"
    for i rs
    by (rule entries_length) (simp add: spec_flat_entry_def)
  show "length (spec_message_lines env results q) =
      1 + (if filter (labelled_as ''POSITIVE'') results = [] then 0
           else 1 + 3 * min 3 (length (filter (labelled_as ''POSITIVE'') results)))
        + (if filter (labelled_as ''NEGATIVE'') results = [] then 0
           else 1 + 3 * min 3 (length (filter (labelled_as ''NEGATIVE'') results)))
        + (if filter (labelled_as ''POSITIVE'') results = [] \<and>
              filter (labelled_as ''NEGATIVE'') results = []
           then 1 + 3 * min 5 (length results) else 0)"
    by (simp add: spec_message_lines_def spec_listing_def s t min.commute)
  assume two: "results = [r1, r2] \<and> labelled_as ''POSITIVE'' r1 \<and> labelled_as ''NEGATIVE'' r2"
  then have "\<not> labelled_as ''NEGATIVE'' r1" "\<not> labelled_as ''POSITIVE'' r2"
    by (simp_all add: labelled_as_def)
  with two have "spec_message_lines env results q =
         [''Found 2 results for '' @ [CHR 0x22] @ py_str env q @ [CHR 0x22, CHR 0x0A],
          ''**Positive Sentiment Results:**'',
          ''1. **'' @ shown env (obj_field r1 ''title'') @ ''**'',
          ''   '' @ shown env (obj_field r1 ''summary''),
          ''   Score: '' @ shown_3f env (obj_field r1 ''score'') @ '' | Sentiment: ''
            @ shown_3f env (sentiment_field r1 ''score'') @ [CHR 0x0A],
          ''**Negative Sentiment Results:**'',
          ''1. **'' @ shown env (obj_field r2 ''title'') @ ''**'',
          ''   '' @ shown env (obj_field r2 ''summary''),
          ''   Score: '' @ shown_3f env (obj_field r2 ''score'') @ '' | Sentiment: ''
            @ shown_3f env (sentiment_field r2 ''score'') @ [CHR 0x0A]]"
    by (simp add: spec_message_lines_def spec_listing_def spec_sentiment_entry_def
          str_nat.simps digit_char_def)
  with rp show "response_parts env results q =
         Inr [''Found 2 results for '' @ [CHR 0x22] @ py_str env q @ [CHR 0x22, CHR 0x0A],
              ''**Positive Sentiment Results:**'',
              ''1. **'' @ shown env (obj_field r1 ''title'') @ ''**'',
              ''   '' @ shown env (obj_field r1 ''summary''),
              ''   Score: '' @ shown_3f env (obj_field r1 ''score'') @ '' | Sentiment: ''
                @ shown_3f env (sentiment_field r1 ''score'') @ [CHR 0x0A],
              ''**Negative Sentiment Results:**'',
              ''1. **'' @ shown env (obj_field r2 ''title'') @ ''**'',
              ''   '' @ shown env (obj_field r2 ''summary''),
              ''   Score: '' @ shown_3f env (obj_field r2 ''score'') @ '' | Sentiment: ''
                @ shown_3f env (sentiment_field r2 ''score'') @ [CHR 0x0A]]"
    by simp
qed

theorem search_complete_message_grouped_witness:
  "filter (notifies ''search_complete'')
     (snd (process_semantic_search
        (search_env
          [scored_hit ''Good'' ''Nice'' ''POSITIVE'' 3 (JInt 1),
           scored_hit ''Bad'' ''Awful'' ''NEGATIVE'' 2 (JInt 4)])
        (JStr ''hello'') (JStr ''c1'') [])) =
     [PostToConnection (JStr ''c1'')
        (JObj [(''status'', JStr ''search_complete''),
               (''message'', JStr
             (''Found 2 results for '' @ [CHR 0x22] @ ''hello''
           @ [CHR 0x22, CHR 0x0A, CHR 0x0A] @ ''**Positive Sentiment Results:**''
           @ [CHR 0x0A] @ ''1. **Good**'' @ [CHR 0x0A] @ ''   Nice...'' @ [CHR 0x0A]
           @ ''   Score: 3.000 | Sentiment: 1.000'' @ [CHR 0x0A, CHR 0x0A]
           @ ''**Negative Sentiment Results:**'' @ [CHR 0x0A] @ ''1. **Bad**''
           @ [CHR 0x0A] @ ''   Awful...'' @ [CHR 0x0A]
           @ ''   Score: 2.000 | Sentiment: 4.000'' @ [CHR 0x0A])),
               (''results'', JList
          [scored_result ''Good'' ''Nice'' ''POSITIVE'' 3 (JInt 1),
           scored_result ''Bad'' ''Awful'' ''NEGATIVE'' 2 (JInt 4)]),
               (''query'', JStr ''hello''),
               (''total_results'', JInt 2)])] \<and>
   filter (notifies ''search_complete'')
     (snd (process_semantic_search
        (search_env
          [scored_hit ''A'' ''a'' ''POSITIVE'' 9 (JInt 1),
           scored_hit ''B'' ''b'' ''POSITIVE'' 8 (JInt 2),
           scored_hit ''C'' ''c'' ''POSITIVE'' 7 (JInt 3),
           scored_hit ''D'' ''d'' ''POSITIVE'' 6 (JInt 4)])
        (JStr ''hello'') (JStr ''c1'') [])) =
     [PostToConnection (JStr ''c1'')
        (JObj [(''status'', JStr ''search_complete''),
               (''message'', JStr
             (''Found 4 results for '' @ [CHR 0x22] @ ''hello''
           @ [CHR 0x22, CHR 0x0A, CHR 0x0A] @ ''**Positive Sentiment Results:**''
           @ [CHR 0x0A] @ ''1. **A**'' @ [CHR 0x0A] @ ''   a...'' @ [CHR 0x0A]
           @ ''   Score: 9.000 | Sentiment: 1.000'' @ [CHR 0x0A, CHR 0x0A] @ ''2. **B**''
           @ [CHR 0x0A] @ ''   b...'' @ [CHR 0x0A]
           @ ''   Score: 8.000 | Sentiment: 2.000'' @ [CHR 0x0A, CHR 0x0A] @ ''3. **C**''
           @ [CHR 0x0A] @ ''   c...'' @ [CHR 0x0A]
           @ ''   Score: 7.000 | Sentiment: 3.000'' @ [CHR 0x0A])),
               (''results'', JList
          [scored_result ''A'' ''a'' ''POSITIVE'' 9 (JInt 1),
           scored_result ''B'' ''b'' ''POSITIVE'' 8 (JInt 2),
           scored_result ''C'' ''c'' ''POSITIVE'' 7 (JInt 3),
           scored_result ''D'' ''d'' ''POSITIVE'' 6 (JInt 4)]),
               (''query'', JStr ''hello''),
               (''total_results'', JInt 4)])] \<and>
   filter (notifies ''search_complete'')
     (snd (process_semantic_search
        (search_env
          [scored_hit ''A'' ''a'' ''NEUTRAL'' 6 (JStr ''n/a''),
           scored_hit ''B'' ''b'' ''NEUTRAL'' 5 (JInt 1),
           scored_hit ''C'' ''c'' ''NEUTRAL'' 4 (JInt 1),
           scored_hit ''D'' ''d'' ''NEUTRAL'' 3 (JInt 1),
           scored_hit ''E'' ''e'' ''NEUTRAL'' 2 (JInt 1),
           scored_hit ''F'' ''f'' ''NEUTRAL'' 1 (JInt 1)])
        (JStr ''hello'') (JStr ''c1'') [])) =
     [PostToConnection (JStr ''c1'')
        (JObj [(''status'', JStr ''search_complete''),
               (''message'', JStr
             (''Found 6 results for '' @ [CHR 0x22] @ ''hello''
           @ [CHR 0x22, CHR 0x0A, CHR 0x0A] @ ''**Top Results:**'' @ [CHR 0x0A]
           @ ''1. **A**'' @ [CHR 0x0A] @ ''   a...'' @ [CHR 0x0A] @ ''   Score: 6.000''
           @ [CHR 0x0A, CHR 0x0A] @ ''2. **B**'' @ [CHR 0x0A] @ ''   b...'' @ [CHR 0x0A]
           @ ''   Score: 5.000'' @ [CHR 0x0A, CHR 0x0A] @ ''3. **C**'' @ [CHR 0x0A]
           @ ''   c...'' @ [CHR 0x0A] @ ''   Score: 4.000'' @ [CHR 0x0A, CHR 0x0A]
           @ ''4. **D**'' @ [CHR 0x0A] @ ''   d...'' @ [CHR 0x0A] @ ''   Score: 3.000''
           @ [CHR 0x0A, CHR 0x0A] @ ''5. **E**'' @ [CHR 0x0A] @ ''   e...'' @ [CHR 0x0A]
           @ ''   Score: 2.000'' @ [CHR 0x0A])),
               (''results'', JList
          [scored_result ''A'' ''a'' ''NEUTRAL'' 6 (JStr ''n/a''),
           scored_result ''B'' ''b'' ''NEUTRAL'' 5 (JInt 1),
           scored_result ''C'' ''c'' ''NEUTRAL'' 4 (JInt 1),
           scored_result ''D'' ''d'' ''NEUTRAL'' 3 (JInt 1),
           scored_result ''E'' ''e'' ''NEUTRAL'' 2 (JInt 1),
           scored_result ''F'' ''f'' ''NEUTRAL'' 1 (JInt 1)]),
               (''query'', JStr ''hello''),
               (''total_results'', JInt 6)])]"
proof (intro conjI)
  let ?env = "search_env
       [scored_hit ''Good'' ''Nice'' ''POSITIVE'' 3 (JInt 1),
        scored_hit ''Bad'' ''Awful'' ''NEGATIVE'' 2 (JInt 4)]"
  let ?results = "[scored_result ''Good'' ''Nice'' ''POSITIVE'' 3 (JInt 1),
        scored_result ''Bad'' ''Awful'' ''NEGATIVE'' 2 (JInt 4)]"
  let ?q = "JStr ''hello'' :: unit json"
  let ?c = "JStr ''c1'' :: unit json"
  have a: "\<forall>r\<in>set ?results. sentiment_field r ''label'' \<noteq> None"
    by (simp add: scored_result_def sentiment_field_def)
  have b: "\<forall>r\<in>set (take 3 (filter (labelled_as ''POSITIVE'') ?results)). listable ?env r"
    by (simp add: scored_result_def sentiment_field_def labelled_as_def listable_def
          flat_listable_def search_env_def stub_env_def)
  have c: "\<forall>r\<in>set (take 3 (filter (labelled_as ''NEGATIVE'') ?results)). listable ?env r"
    by (simp add: scored_result_def sentiment_field_def labelled_as_def listable_def
          flat_listable_def search_env_def stub_env_def)
  have d: "filter (labelled_as ''POSITIVE'') ?results = [] \<and>
           filter (labelled_as ''NEGATIVE'') ?results = [] \<longrightarrow>
             (\<forall>r\<in>set (take 5 ?results). flat_listable ?env r)"
    by (simp add: scored_result_def sentiment_field_def labelled_as_def flat_listable_def
          search_env_def stub_env_def)
  have e: "?results \<noteq> []" by simp
  have f: "configured (WEBSOCKET_API_ENDPOINT ?env)"
    by (simp add: search_env_def stub_env_def)
  have g: "fst (perform_semantic_search ?env ?q
                  (snd (send_websocket_message ?env ?c (processing_message ?env ?q) []))) =
           Inr ?results"
    by (simp add: perform_semantic_search_def get_bedrock_embedding_def
          search_opensearch_by_embedding_def send_websocket_message_def hits_of_def
          format_hit_def prog_defs search_env_def stub_env_def stub_vector_def
          stub_response_def stub_hits_def scored_hit_def scored_result_def)
  have m: "spec_message_text (spec_message_lines ?env ?results ?q) =
           ''Found 2 results for '' @ [CHR 0x22] @ ''hello''
           @ [CHR 0x22, CHR 0x0A, CHR 0x0A] @ ''**Positive Sentiment Results:**''
           @ [CHR 0x0A] @ ''1. **Good**'' @ [CHR 0x0A] @ ''   Nice...'' @ [CHR 0x0A]
           @ ''   Score: 3.000 | Sentiment: 1.000'' @ [CHR 0x0A, CHR 0x0A]
           @ ''**Negative Sentiment Results:**'' @ [CHR 0x0A] @ ''1. **Bad**''
           @ [CHR 0x0A] @ ''   Awful...'' @ [CHR 0x0A]
           @ ''   Score: 2.000 | Sentiment: 4.000'' @ [CHR 0x0A]"
    by (simp add: spec_message_text_def spec_message_lines_def spec_listing_def
          spec_sentiment_entry_def spec_flat_entry_def sentiment_field_def labelled_as_def
          scored_result_def str_nat.simps digit_char_def str_int_def search_env_def
          stub_env_def)
  note T = search_complete_message_grouped [OF a b c d e, of ?q ?c "[]"]
  from T f g obtain evs where
    "process_semantic_search ?env ?q ?c [] =
       (Inr (JObj [(''status'', JStr ''success''),
                   (''message'', JStr ''Search completed successfully'')]), [] @ evs)"
    and "filter (notifies ''search_complete'') evs =
       [PostToConnection ?c
          (JObj [(''status'', JStr ''search_complete''),
                 (''message'', JStr (spec_message_text (spec_message_lines ?env ?results ?q))),
                 (''results'', JList ?results),
                 (''query'', ?q),
                 (''total_results'', JInt (int (length ?results)))])]"
    by blast
  then show "filter (notifies ''search_complete'')
       (snd (process_semantic_search
          (search_env
            [scored_hit ''Good'' ''Nice'' ''POSITIVE'' 3 (JInt 1),
             scored_hit ''Bad'' ''Awful'' ''NEGATIVE'' 2 (JInt 4)])
          (JStr ''hello'') (JStr ''c1'') [])) =
       [PostToConnection (JStr ''c1'')
          (JObj [(''status'', JStr ''search_complete''),
                 (''message'', JStr
               (''Found 2 results for '' @ [CHR 0x22] @ ''hello''
           @ [CHR 0x22, CHR 0x0A, CHR 0x0A] @ ''**Positive Sentiment Results:**''
           @ [CHR 0x0A] @ ''1. **Good**'' @ [CHR 0x0A] @ ''   Nice...'' @ [CHR 0x0A]
           @ ''   Score: 3.000 | Sentiment: 1.000'' @ [CHR 0x0A, CHR 0x0A]
           @ ''**Negative Sentiment Results:**'' @ [CHR 0x0A] @ ''1. **Bad**''
           @ [CHR 0x0A] @ ''   Awful...'' @ [CHR 0x0A]
           @ ''   Score: 2.000 | Sentiment: 4.000'' @ [CHR 0x0A])),
                 (''results'', JList
            [scored_result ''Good'' ''Nice'' ''POSITIVE'' 3 (JInt 1),
             scored_result ''Bad'' ''Awful'' ''NEGATIVE'' 2 (JInt 4)]),
                 (''query'', JStr ''hello''),
                 (''total_results'', JInt 2)])]"
    unfolding m by simp
next
  let ?env = "search_env
       [scored_hit ''A'' ''a'' ''POSITIVE'' 9 (JInt 1),
        scored_hit ''B'' ''b'' ''POSITIVE'' 8 (JInt 2),
        scored_hit ''C'' ''c'' ''POSITIVE'' 7 (JInt 3),
        scored_hit ''D'' ''d'' ''POSITIVE'' 6 (JInt 4)]"
  let ?results = "[scored_result ''A'' ''a'' ''POSITIVE'' 9 (JInt 1),
        scored_result ''B'' ''b'' ''POSITIVE'' 8 (JInt 2),
        scored_result ''C'' ''c'' ''POSITIVE'' 7 (JInt 3),
        scored_result ''D'' ''d'' ''POSITIVE'' 6 (JInt 4)]"
  let ?q = "JStr ''hello'' :: unit json"
  let ?c = "JStr ''c1'' :: unit json"
  have a: "\<forall>r\<in>set ?results. sentiment_field r ''label'' \<noteq> None"
    by (simp add: scored_result_def sentiment_field_def)
  have b: "\<forall>r\<in>set (take 3 (filter (labelled_as ''POSITIVE'') ?results)). listable ?env r"
    by (simp add: scored_result_def sentiment_field_def labelled_as_def listable_def
          flat_listable_def search_env_def stub_env_def)
  have c: "\<forall>r\<in>set (take 3 (filter (labelled_as ''NEGATIVE'') ?results)). listable ?env r"
    by (simp add: scored_result_def sentiment_field_def labelled_as_def listable_def
          flat_listable_def search_env_def stub_env_def)
  have d: "filter (labelled_as ''POSITIVE'') ?results = [] \<and>
           filter (labelled_as ''NEGATIVE'') ?results = [] \<longrightarrow>
             (\<forall>r\<in>set (take 5 ?results). flat_listable ?env r)"
    by (simp add: scored_result_def sentiment_field_def labelled_as_def flat_listable_def
          search_env_def stub_env_def)
  have e: "?results \<noteq> []" by simp
  have f: "configured (WEBSOCKET_API_ENDPOINT ?env)"
    by (simp add: search_env_def stub_env_def)
  have g: "fst (perform_semantic_search ?env ?q
                  (snd (send_websocket_message ?env ?c (processing_message ?env ?q) []))) =
           Inr ?results"
    by (simp add: perform_semantic_search_def get_bedrock_embedding_def
          search_opensearch_by_embedding_def send_websocket_message_def hits_of_def
          format_hit_def prog_defs search_env_def stub_env_def stub_vector_def
          stub_response_def stub_hits_def scored_hit_def scored_result_def)
  have m: "spec_message_text (spec_message_lines ?env ?results ?q) =
           ''Found 4 results for '' @ [CHR 0x22] @ ''hello''
           @ [CHR 0x22, CHR 0x0A, CHR 0x0A] @ ''**Positive Sentiment Results:**''
           @ [CHR 0x0A] @ ''1. **A**'' @ [CHR 0x0A] @ ''   a...'' @ [CHR 0x0A]
           @ ''   Score: 9.000 | Sentiment: 1.000'' @ [CHR 0x0A, CHR 0x0A] @ ''2. **B**''
           @ [CHR 0x0A] @ ''   b...'' @ [CHR 0x0A]
           @ ''   Score: 8.000 | Sentiment: 2.000'' @ [CHR 0x0A, CHR 0x0A] @ ''3. **C**''
           @ [CHR 0x0A] @ ''   c...'' @ [CHR 0x0A]
           @ ''   Score: 7.000 | Sentiment: 3.000'' @ [CHR 0x0A]"
    by (simp add: spec_message_text_def spec_message_lines_def spec_listing_def
          spec_sentiment_entry_def spec_flat_entry_def sentiment_field_def labelled_as_def
          scored_result_def str_nat.simps digit_char_def str_int_def search_env_def
          stub_env_def)
  note T = search_complete_message_grouped [OF a b c d e, of ?q ?c "[]"]
  from T f g obtain evs where
    "process_semantic_search ?env ?q ?c [] =
       (Inr (JObj [(''status'', JStr ''success''),
                   (''message'', JStr ''Search completed successfully'')]), [] @ evs)"
    and "filter (notifies ''search_complete'') evs =
       [PostToConnection ?c
          (JObj [(''status'', JStr ''search_complete''),
                 (''message'', JStr (spec_message_text (spec_message_lines ?env ?results ?q))),
                 (''results'', JList ?results),
                 (''query'', ?q),
                 (''total_results'', JInt (int (length ?results)))])]"
    by blast
  then show "filter (notifies ''search_complete'')
       (snd (process_semantic_search
          (search_env
            [scored_hit ''A'' ''a'' ''POSITIVE'' 9 (JInt 1),
             scored_hit ''B'' ''b'' ''POSITIVE'' 8 (JInt 2),
             scored_hit ''C'' ''c'' ''POSITIVE'' 7 (JInt 3),
             scored_hit ''D'' ''d'' ''POSITIVE'' 6 (JInt 4)])
          (JStr ''hello'') (JStr ''c1'') [])) =
       [PostToConnection (JStr ''c1'')
          (JObj [(''status'', JStr ''search_complete''),
                 (''message'', JStr
               (''Found 4 results for '' @ [CHR 0x22] @ ''hello''
           @ [CHR 0x22, CHR 0x0A, CHR 0x0A] @ ''**Positive Sentiment Results:**''
           @ [CHR 0x0A] @ ''1. **A**'' @ [CHR 0x0A] @ ''   a...'' @ [CHR 0x0A]
           @ ''   Score: 9.000 | Sentiment: 1.000'' @ [CHR 0x0A, CHR 0x0A] @ ''2. **B**''
           @ [CHR 0x0A] @ ''   b...'' @ [CHR 0x0A]
           @ ''   Score: 8.000 | Sentiment: 2.000'' @ [CHR 0x0A, CHR 0x0A] @ ''3. **C**''
           @ [CHR 0x0A] @ ''   c...'' @ [CHR 0x0A]
           @ ''   Score: 7.000 | Sentiment: 3.000'' @ [CHR 0x0A])),
                 (''results'', JList
            [scored_result ''A'' ''a'' ''POSITIVE'' 9 (JInt 1),
             scored_result ''B'' ''b'' ''POSITIVE'' 8 (JInt 2),
             scored_result ''C'' ''c'' ''POSITIVE'' 7 (JInt 3),
             scored_result ''D'' ''d'' ''POSITIVE'' 6 (JInt 4)]),
                 (''query'', JStr ''hello''),
                 (''total_results'', JInt 4)])]"
    unfolding m by simp
next
  let ?env = "search_env
       [scored_hit ''A'' ''a'' ''NEUTRAL'' 6 (JStr ''n/a''),
        scored_hit ''B'' ''b'' ''NEUTRAL'' 5 (JInt 1),
        scored_hit ''C'' ''c'' ''NEUTRAL'' 4 (JInt 1),
        scored_hit ''D'' ''d'' ''NEUTRAL'' 3 (JInt 1),
        scored_hit ''E'' ''e'' ''NEUTRAL'' 2 (JInt 1),
        scored_hit ''F'' ''f'' ''NEUTRAL'' 1 (JInt 1)]"
  let ?results = "[scored_result ''A'' ''a'' ''NEUTRAL'' 6 (JStr ''n/a''),
        scored_result ''B'' ''b'' ''NEUTRAL'' 5 (JInt 1),
        scored_result ''C'' ''c'' ''NEUTRAL'' 4 (JInt 1),
        scored_result ''D'' ''d'' ''NEUTRAL'' 3 (JInt 1),
        scored_result ''E'' ''e'' ''NEUTRAL'' 2 (JInt 1),
        scored_result ''F'' ''f'' ''NEUTRAL'' 1 (JInt 1)]"
  let ?q = "JStr ''hello'' :: unit json"
  let ?c = "JStr ''c1'' :: unit json"
  have a: "\<forall>r\<in>set ?results. sentiment_field r ''label'' \<noteq> None"
    by (simp add: scored_result_def sentiment_field_def)
  have b: "\<forall>r\<in>set (take 3 (filter (labelled_as ''POSITIVE'') ?results)). listable ?env r"
    by (simp add: scored_result_def sentiment_field_def labelled_as_def listable_def
          flat_listable_def search_env_def stub_env_def)
  have c: "\<forall>r\<in>set (take 3 (filter (labelled_as ''NEGATIVE'') ?results)). listable ?env r"
    by (simp add: scored_result_def sentiment_field_def labelled_as_def listable_def
          flat_listable_def search_env_def stub_env_def)
  have d: "filter (labelled_as ''POSITIVE'') ?results = [] \<and>
           filter (labelled_as ''NEGATIVE'') ?results = [] \<longrightarrow>
             (\<forall>r\<in>set (take 5 ?results). flat_listable ?env r)"
    by (simp add: scored_result_def sentiment_field_def labelled_as_def flat_listable_def
          search_env_def stub_env_def)
  have e: "?results \<noteq> []" by simp
  have f: "configured (WEBSOCKET_API_ENDPOINT ?env)"
    by (simp add: search_env_def stub_env_def)
  have g: "fst (perform_semantic_search ?env ?q
                  (snd (send_websocket_message ?env ?c (processing_message ?env ?q) []))) =
           Inr ?results"
    by (simp add: perform_semantic_search_def get_bedrock_embedding_def
          search_opensearch_by_embedding_def send_websocket_message_def hits_of_def
          format_hit_def prog_defs search_env_def stub_env_def stub_vector_def
          stub_response_def stub_hits_def scored_hit_def scored_result_def)
  have m: "spec_message_text (spec_message_lines ?env ?results ?q) =
           ''Found 6 results for '' @ [CHR 0x22] @ ''hello''
           @ [CHR 0x22, CHR 0x0A, CHR 0x0A] @ ''**Top Results:**'' @ [CHR 0x0A]
           @ ''1. **A**'' @ [CHR 0x0A] @ ''   a...'' @ [CHR 0x0A] @ ''   Score: 6.000''
           @ [CHR 0x0A, CHR 0x0A] @ ''2. **B**'' @ [CHR 0x0A] @ ''   b...'' @ [CHR 0x0A]
           @ ''   Score: 5.000'' @ [CHR 0x0A, CHR 0x0A] @ ''3. **C**'' @ [CHR 0x0A]
           @ ''   c...'' @ [CHR 0x0A] @ ''   Score: 4.000'' @ [CHR 0x0A, CHR 0x0A]
           @ ''4. **D**'' @ [CHR 0x0A] @ ''   d...'' @ [CHR 0x0A] @ ''   Score: 3.000''
           @ [CHR 0x0A, CHR 0x0A] @ ''5. **E**'' @ [CHR 0x0A] @ ''   e...'' @ [CHR 0x0A]
           @ ''   Score: 2.000'' @ [CHR 0x0A]"
    by (simp add: spec_message_text_def spec_message_lines_def spec_listing_def
          spec_sentiment_entry_def spec_flat_entry_def sentiment_field_def labelled_as_def
          scored_result_def str_nat.simps digit_char_def str_int_def search_env_def
          stub_env_def)
  note T = search_complete_message_grouped [OF a b c d e, of ?q ?c "[]"]
  from T f g obtain evs where
    "process_semantic_search ?env ?q ?c [] =
       (Inr (JObj [(''status'', JStr ''success''),
                   (''message'', JStr ''Search completed successfully'')]), [] @ evs)"
    and "filter (notifies ''search_complete'') evs =
       [PostToConnection ?c
          (JObj [(''status'', JStr ''search_complete''),
                 (''message'', JStr (spec_message_text (spec_message_lines ?env ?results ?q))),
                 (''results'', JList ?results),
                 (''query'', ?q),
                 (''total_results'', JInt (int (length ?results)))])]"
    by blast
  then show "filter (notifies ''search_complete'')
       (snd (process_semantic_search
          (search_env
            [scored_hit ''A'' ''a'' ''NEUTRAL'' 6 (JStr ''n/a''),
             scored_hit ''B'' ''b'' ''NEUTRAL'' 5 (JInt 1),
             scored_hit ''C'' ''c'' ''NEUTRAL'' 4 (JInt 1),
             scored_hit ''D'' ''d'' ''NEUTRAL'' 3 (JInt 1),
             scored_hit ''E'' ''e'' ''NEUTRAL'' 2 (JInt 1),
             scored_hit ''F'' ''f'' ''NEUTRAL'' 1 (JInt 1)])
          (JStr ''hello'') (JStr ''c1'') [])) =
       [PostToConnection (JStr ''c1'')
          (JObj [(''status'', JStr ''search_complete''),
                 (''message'', JStr
               (''Found 6 results for '' @ [CHR 0x22] @ ''hello''
           @ [CHR 0x22, CHR 0x0A, CHR 0x0A] @ ''**Top Results:**'' @ [CHR 0x0A]
           @ ''1. **A**'' @ [CHR 0x0A] @ ''   a...'' @ [CHR 0x0A] @ ''   Score: 6.000''
           @ [CHR 0x0A, CHR 0x0A] @ ''2. **B**'' @ [CHR 0x0A] @ ''   b...'' @ [CHR 0x0A]
           @ ''   Score: 5.000'' @ [CHR 0x0A, CHR 0x0A] @ ''3. **C**'' @ [CHR 0x0A]
           @ ''   c...'' @ [CHR 0x0A] @ ''   Score: 4.000'' @ [CHR 0x0A, CHR 0x0A]
           @ ''4. **D**'' @ [CHR 0x0A] @ ''   d...'' @ [CHR 0x0A] @ ''   Score: 3.000''
           @ [CHR 0x0A, CHR 0x0A] @ ''5. **E**'' @ [CHR 0x0A] @ ''   e...'' @ [CHR 0x0A]
           @ ''   Score: 2.000'' @ [CHR 0x0A])),
                 (''results'', JList
            [scored_result ''A'' ''a'' ''NEUTRAL'' 6 (JStr ''n/a''),
             scored_result ''B'' ''b'' ''NEUTRAL'' 5 (JInt 1),
             scored_result ''C'' ''c'' ''NEUTRAL'' 4 (JInt 1),
             scored_result ''D'' ''d'' ''NEUTRAL'' 3 (JInt 1),
             scored_result ''E'' ''e'' ''NEUTRAL'' 2 (JInt 1),
             scored_result ''F'' ''f'' ''NEUTRAL'' 1 (JInt 1)]),
                 (''query'', JStr ''hello''),
                 (''total_results'', JInt 6)])]"
    unfolding m by simp
qed

section \<open>The bulk upsert\<close>

lemma carries_error_found:
  "carries_error item \<Longrightarrow>
     sbnd (py_get item ''index'' (JObj [])) (py_in ''error'') = Inr True"
  by (cases item; cases "map_of (case item of JObj kvs \<Rightarrow> kvs) ''index''";
      cases "the (map_of (case item of JObj kvs \<Rightarrow> kvs) ''index'')")
     (auto simp: sbnd_def)

lemma error_items_empty:
  "error_items its = Inr [] \<Longrightarrow> \<forall>item\<in>set its. \<not> carries_error item"
proof (induction its)
  case Nil
  show ?case by simp
next
  case (Cons item its)
  show ?case
  proof (cases "carries_error item")
    case True
    from carries_error_found [OF True] Cons.prems show ?thesis
      by (simp split: sum.splits)
  next
    case False
    with Cons show ?thesis
      by (auto split: sum.splits if_splits)
  qed
qed

lemma bulk_add_documents_returns:
  "\<exists>b tr'. bulk_add_documents env docs tr = (Inr b, tr')"
  unfolding bulk_add_documents_def
  by (rule try_except_returns) (auto simp: prog_defs)

lemma bulk_add_documents_True:
  assumes "fst (bulk_add_documents env docs tr) = Inr True"
  shows "\<exists>response result its.
           http_post env tr (bulk_url env) (NdjsonBody (bulk_data (INDEX_NAME env) 0 docs)) =
             Inr response \<and>
           resp_ok response \<and> resp_json response = Inr result \<and>
           sbnd (py_get result ''items'' (JList [])) py_iter = Inr its \<and>
           (\<forall>item\<in>set its. \<not> carries_error item)"
proof -
  let ?post = "http_post env tr (bulk_url env) (NdjsonBody (bulk_data (INDEX_NAME env) 0 docs))"
  from assms obtain response where r: "?post = Inr response" and ok: "resp_ok response"
    by (auto simp: bulk_add_documents_def prog_defs split: if_splits sum.splits)
  from assms r ok obtain result where j: "resp_json response = Inr result"
    by (auto simp: bulk_add_documents_def prog_defs split: if_splits sum.splits)
  from assms r ok j obtain its where i: "sbnd (py_get result ''items'' (JList [])) py_iter = Inr its"
    and e: "error_items its = Inr []"
    by (auto simp: bulk_add_documents_def prog_defs split: if_splits sum.splits)
  from r ok j i error_items_empty [OF e] show ?thesis by blast
qed

text \<open>
  C9. \<open>bulk_add_documents\<close> always returns a truth value. It returns \<open>True\<close> only if the
  HTTP call came back with a success status and a body none of whose items carries an
  error. If an item of the response carries an error, or the status is not a success, it
  returns \<open>False\<close>.
\<close>

theorem bulk_add_documents_success_only_without_errors:
  "(\<exists>b tr'. bulk_add_documents env docs tr = (Inr b, tr')) \<and>
   (fst (bulk_add_documents env docs tr) = Inr True \<longrightarrow>
      (\<exists>response result its.
          http_post env tr (bulk_url env) (NdjsonBody (bulk_data (INDEX_NAME env) 0 docs)) =
            Inr response \<and>
          resp_ok response \<and> resp_json response = Inr result \<and>
          sbnd (py_get result ''items'' (JList [])) py_iter = Inr its \<and>
          (\<forall>item\<in>set its. \<not> carries_error item))) \<and>
   (http_post env tr (bulk_url env) (NdjsonBody (bulk_data (INDEX_NAME env) 0 docs)) =
      Inr response \<and>
    resp_json response = Inr (JObj kvs) \<and> map_of kvs ''items'' = Some (JList its) \<and>
    item \<in> set its \<and> carries_error item \<longrightarrow>
      fst (bulk_add_documents env docs tr) = Inr False) \<and>
   (http_post env tr (bulk_url env) (NdjsonBody (bulk_data (INDEX_NAME env) 0 docs)) =
      Inr response \<and> \<not> resp_ok response \<longrightarrow>
      fst (bulk_add_documents env docs tr) = Inr False)"
proof (intro conjI impI)
  show t: "\<exists>b tr'. bulk_add_documents env docs tr = (Inr b, tr')"
    by (rule bulk_add_documents_returns)
  show "\<exists>response result its.
          http_post env tr (bulk_url env) (NdjsonBody (bulk_data (INDEX_NAME env) 0 docs)) =
            Inr response \<and>
          resp_ok response \<and> resp_json response = Inr result \<and>
          sbnd (py_get result ''items'' (JList [])) py_iter = Inr its \<and>
          (\<forall>item\<in>set its. \<not> carries_error item)"
    if "fst (bulk_add_documents env docs tr) = Inr True"
    using that by (rule bulk_add_documents_True)
  {
    assume h: "http_post env tr (bulk_url env)
                 (NdjsonBody (bulk_data (INDEX_NAME env) 0 docs)) = Inr response \<and>
       resp_json response = Inr (JObj kvs) \<and> map_of kvs ''items'' = Some (JList its) \<and>
       item \<in> set its \<and> carries_error item"
    have "fst (bulk_add_documents env docs tr) \<noteq> Inr True"
    proof
      assume "fst (bulk_add_documents env docs tr) = Inr True"
      from bulk_add_documents_True [OF this] h show False
        by (auto simp: sbnd_def)
    qed
    with t show "fst (bulk_add_documents env docs tr) = Inr False" by auto
  }
  assume "http_post env tr (bulk_url env)
            (NdjsonBody (bulk_data (INDEX_NAME env) 0 docs)) = Inr response \<and>
          \<not> resp_ok response"
  with bulk_add_documents_True [of env docs tr] t
  show "fst (bulk_add_documents env docs tr) = Inr False" by auto
qed

theorem bulk_add_documents_success_only_without_errors_witness:
  "fst (bulk_add_documents
          (stub_env (Inl (ServiceError ''down''))
             (Inr (stub_response
                (JObj [(''errors'', JBool False),
                       (''items'', JList [JObj [(''index'', JObj [(''status'', JInt 201)])]])])))
             None (Inl (ServiceError ''down'')))
          [JObj [(''title'', JStr ''Doc'')]] []) = Inr True \<and>
   fst (bulk_add_documents
          (stub_env (Inl (ServiceError ''down''))
             (Inr (stub_response
                (JObj [(''errors'', JBool True),
                       (''items'',
                        JList [JObj [(''index'', JObj [(''status'', JInt 201)])],
                               JObj [(''index'',
                                      JObj [(''status'', JInt 400),
                                            (''error'', JStr ''mapping'')])]])])))
             None (Inl (ServiceError ''down'')))
          [JObj [(''title'', JStr ''Doc'')], JObj [(''title'', JInt 7)]] []) = Inr False \<and>
   fst (bulk_add_documents
          (stub_env (Inl (ServiceError ''down''))
             (Inr \<lparr> resp_ok = False, resp_status_code = 503, resp_text = ''unavailable'',
                    resp_json = Inl ValueError \<rparr>)
             None (Inl (ServiceError ''down'')))
          [JObj [(''title'', JStr ''Doc'')]] []) = Inr False"
proof -
  let ?ok = "JObj [(''index'', JObj [(''status'', JInt 201)])]"
  let ?bad = "JObj [(''index'', JObj [(''status'', JInt 400), (''error'', JStr ''mapping'')])]"
  let ?r1 = "stub_response (JObj [(''errors'', JBool False), (''items'', JList [?ok])])"
  let ?r2 = "stub_response (JObj [(''errors'', JBool True), (''items'', JList [?ok, ?bad])])"
  let ?r3 = "\<lparr> resp_ok = False, resp_status_code = 503, resp_text = ''unavailable'',
               resp_json = Inl ValueError \<rparr> :: unit response"
  let ?e1 = "stub_env (Inl (ServiceError ''down'')) (Inr ?r1) None (Inl (ServiceError ''down''))"
  let ?e2 = "stub_env (Inl (ServiceError ''down'')) (Inr ?r2) None (Inl (ServiceError ''down''))"
  let ?e3 = "stub_env (Inl (ServiceError ''down'')) (Inr ?r3) None (Inl (ServiceError ''down''))"
  have a: "fst (bulk_add_documents ?e1 [JObj [(''title'', JStr ''Doc'')]] []) = Inr True"
    by (simp add: bulk_add_documents_def prog_defs stub_defs)
  have b: "http_post ?e2 [] (bulk_url ?e2)
             (NdjsonBody (bulk_data (INDEX_NAME ?e2) 0
                [JObj [(''title'', JStr ''Doc'')], JObj [(''title'', JInt 7)]])) = Inr ?r2 \<and>
           resp_json ?r2 = Inr (JObj [(''errors'', JBool True), (''items'', JList [?ok, ?bad])]) \<and>
           map_of [(''errors'', JBool True), (''items'', JList [?ok, ?bad])] ''items'' =
             Some (JList [?ok, ?bad]) \<and>
           ?bad \<in> set [?ok, ?bad] \<and> carries_error ?bad"
    by (simp add: stub_defs)
  have c: "http_post ?e3 [] (bulk_url ?e3)
             (NdjsonBody (bulk_data (INDEX_NAME ?e3) 0 [JObj [(''title'', JStr ''Doc'')]])) =
             Inr ?r3 \<and> \<not> resp_ok ?r3"
    by (simp add: stub_defs)
  from a b c
    bulk_add_documents_success_only_without_errors
      [of ?e1 "[JObj [(''title'', JStr ''Doc'')]]" "[]"]
    bulk_add_documents_success_only_without_errors
      [of ?e2 "[JObj [(''title'', JStr ''Doc'')], JObj [(''title'', JInt 7)]]" "[]" ?r2
          "[(''errors'', JBool True), (''items'', JList [?ok, ?bad])]" "[?ok, ?bad]" ?bad]
    bulk_add_documents_success_only_without_errors
      [of ?e3 "[JObj [(''title'', JStr ''Doc'')]]" "[]" ?r3]
  show ?thesis by blast
qed

section \<open>The summarization composer\<close>

text \<open>
  C8. When the embedding and the search succeed, \<open>llm_summarize\<close> returns the fixed message
  if the search has no hits, without calling the text-generation model. If it has hits (and
  they can be written into a prompt), it calls the model and returns its completion: the
  \<open>outputText\<close> of the first of the reply's \<open>results\<close>, or, for a reply without \<open>results\<close>,
  its non-empty \<open>completion\<close>.
\<close>

theorem llm_summarize_outcomes:
  assumes "be_get_bedrock_embedding env q tr = (Inr emb, tr1)"
    and "oc_search_opensearch_by_embedding env emb 5 tr1 = (Inr results, tr2)"
    and "hits_of results = Inr hits"
  shows "(\<not> truthy env hits \<longrightarrow>
            llm_summarize env q tr = (Inr ''No relevant results found.'', tr2)) \<and>
         (truthy env hits \<and> format_snippets_for_prompt env hits = Inr snippets_text \<and>
          render_template env snippets_text = Inr prompt \<and>
          invoke_model env tr2 (LLM_MODEL_ID env)
            (llm_request_body env (LLM_MODEL_ID env) prompt) = Inr (JObj reply) \<longrightarrow>
            (map_of reply ''results'' = Some (JList (JObj first # rest)) \<and>
             map_of first ''outputText'' = Some (JStr t) \<longrightarrow>
               fst (llm_summarize env q tr) = Inr t) \<and>
            (map_of reply ''results'' = None \<and> map_of reply ''completion'' = Some (JStr t) \<and>
             t \<noteq> [] \<longrightarrow>
               fst (llm_summarize env q tr) = Inr t))"
  using assms
  by (simp add: llm_summarize_def get_bedrock_llm_response_def prog_defs)

theorem llm_summarize_outcomes_witness:
  "llm_summarize
     (stub_env (Inr stub_vector) (Inr (stub_response (stub_hits []))) None
        (Inl (ServiceError ''down'')))
     (JStr ''hello'') [] =
     (Inr ''No relevant results found.'',
      [InvokeModel ''amazon.titan-embed-text-v1'' (JObj [(''inputText'', JStr ''hello'')]),
       Print (EmbeddingGenerated 2),
       HttpPost ''https://search.example.com/semantic-search-index/_search''
         (JsonBody (knn_query (JList [JFloat (), JFloat ()]) 5
            [''title'', ''summary'', ''content'', ''sentiment_label'', ''sentiment_score'',
             ''category'', ''url'', ''timestamp'']))]) \<and>
   fst (llm_summarize
          (stub_env (Inr stub_vector)
             (Inr (stub_response (stub_hits [stub_hit ''Good'' ''Nice'' ''POSITIVE''])))
             None (Inr (JObj [(''results'', JList [JObj [(''outputText'', JStr ''All good.'')]])])))
          (JStr ''hello'') []) = Inr ''All good.''"
proof -
  let ?e1 = "stub_env (Inr stub_vector) (Inr (stub_response (stub_hits []))) None
               (Inl (ServiceError ''down''))"
  let ?reply = "[(''results'', JList [JObj [(''outputText'', JStr ''All good.'')]])]"
  let ?e2 = "stub_env (Inr stub_vector)
               (Inr (stub_response (stub_hits [stub_hit ''Good'' ''Nice'' ''POSITIVE''])))
               None (Inr (JObj ?reply))"
  let ?tr1 = "[InvokeModel ''amazon.titan-embed-text-v1'' (JObj [(''inputText'', JStr ''hello'')]),
               Print (EmbeddingGenerated 2)]"
  let ?tr2 = "?tr1 @ [HttpPost ''https://search.example.com/semantic-search-index/_search''
         (JsonBody (knn_query (JList [JFloat (), JFloat ()]) 5
            [''title'', ''summary'', ''content'', ''sentiment_label'', ''sentiment_score'',
             ''category'', ''url'', ''timestamp'']))]"
  let ?vec = "JList [JFloat (), JFloat ()]"
  have a1: "be_get_bedrock_embedding ?e1 (JStr ''hello'') [] = (Inr ?vec, ?tr1)"
    by (simp add: be_get_bedrock_embedding_def prog_defs stub_defs)
  have b1: "oc_search_opensearch_by_embedding ?e1 ?vec 5 ?tr1 = (Inr (stub_hits []), ?tr2)"
    by (simp add: oc_search_opensearch_by_embedding_def search_url_def prog_defs stub_defs)
  have c1: "hits_of (stub_hits []) = Inr (JList [])"
    by (simp add: hits_of_def sbnd_def stub_hits_def)
  have a2: "be_get_bedrock_embedding ?e2 (JStr ''hello'') [] = (Inr ?vec, ?tr1)"
    by (simp add: be_get_bedrock_embedding_def prog_defs stub_defs)
  have b2: "oc_search_opensearch_by_embedding ?e2 ?vec 5 ?tr1 =
              (Inr (stub_hits [stub_hit ''Good'' ''Nice'' ''POSITIVE'']), ?tr2)"
    by (simp add: oc_search_opensearch_by_embedding_def search_url_def prog_defs stub_defs)
  have c2: "hits_of (stub_hits [stub_hit ''Good'' ''Nice'' ''POSITIVE'']) =
              Inr (JList [stub_hit ''Good'' ''Nice'' ''POSITIVE''])"
    by (simp add: hits_of_def sbnd_def stub_hits_def)
  obtain st where s: "format_snippets_for_prompt ?e2 (JList [stub_hit ''Good'' ''Nice'' ''POSITIVE''])
                        = Inr st"
    by (simp add: format_snippets_for_prompt_def snippet_def sbnd_def stub_hit_def)
  have r: "render_template ?e2 st = Inr (''Summarize:'' @ nl @ st)"
    by (simp add: stub_defs)
  have i: "invoke_model ?e2 ?tr2 (LLM_MODEL_ID ?e2)
             (llm_request_body ?e2 (LLM_MODEL_ID ?e2) (''Summarize:'' @ nl @ st)) =
           Inr (JObj ?reply)"
    by (simp add: stub_defs)
  have m: "map_of ?reply ''results'' = Some (JList (JObj [(''outputText'', JStr ''All good.'')] # []))
           \<and> map_of [(''outputText'', JStr ''All good.'')] ''outputText'' = Some (JStr ''All good.'')"
    by simp
  have t1: "\<not> truthy ?e1 (JList [])" by simp
  have t2: "truthy ?e2 (JList [stub_hit ''Good'' ''Nice'' ''POSITIVE''])" by simp
  from llm_summarize_outcomes [OF a1 b1 c1] t1
  have x: "llm_summarize ?e1 (JStr ''hello'') [] = (Inr ''No relevant results found.'', ?tr2)"
    by blast
  from llm_summarize_outcomes [OF a2 b2 c2, of st "''Summarize:'' @ nl @ st" ?reply
         "[(''outputText'', JStr ''All good.'')]" "[]" "''All good.''"] t2 s r i m
  have y: "fst (llm_summarize ?e2 (JStr ''hello'') []) = Inr ''All good.''"
    by blast
  from x y show ?thesis by simp
qed


end
